theory Spec2Isabelle
  imports Complex_Main
begin

section \<open>JavaScript strings\<close>

text \<open>
  Strings are character lists.  \<open>toLowerCase\<close> is modelled on ASCII text: the letters
  \<open>A\<close> to \<open>Z\<close> are mapped to \<open>a\<close> to \<open>z\<close>, every other character is kept.
\<close>

definition lowerChar :: "char \<Rightarrow> char" where
  "lowerChar c =
     (let n = (of_char c :: nat) in if 65 \<le> n \<and> n \<le> 90 then char_of (n + 32) else c)"

definition toLowerCase :: "string \<Rightarrow> string" where
  "toLowerCase s = map lowerChar s"

text \<open>\<open>s.startsWith(p)\<close> and \<open>s.includes(t)\<close> (named \<open>str_includes\<close> here).\<close>

fun startsWith :: "string \<Rightarrow> string \<Rightarrow> bool" where
  "startsWith s [] = True"
| "startsWith [] (p # ps) = False"
| "startsWith (c # cs) (p # ps) = (c = p \<and> startsWith cs ps)"

fun str_includes :: "string \<Rightarrow> string \<Rightarrow> bool" where
  "str_includes [] t = (t = [])"
| "str_includes (c # cs) t = (startsWith (c # cs) t \<or> str_includes cs t)"

section \<open>Errors and the error classifier\<close>

text \<open>
  A thrown value is seen by the classifier only through \<open>error.message\<close> (possibly
  undefined) and \<open>error.toString()\<close>.
\<close>

record thrown =
  message :: "string option"
  asString :: string

text \<open>\<open>new Error(m)\<close>: the message is \<open>m\<close>, the string form is \<open>Error: m\<close>.\<close>

definition newError :: "string \<Rightarrow> thrown" where
  "newError m = \<lparr>message = Some m, asString = ''Error: '' @ m\<rparr>"

definition rateLimitIndicators :: "string list" where
  "rateLimitIndicators =
     [''too many requests'', ''rate limit'', ''error code 9'',
      ''statuscode\":429'', ''status code 429'', ''getorcreatechannel failed'',
      ''quota exceeded'', ''limit exceeded'']"

definition wsErrorIndicators :: "string list" where
  "wsErrorIndicators =
     [''websocket'', ''ws failed'', ''connection failed'', ''code: 1006'',
      ''joinresponse'', ''timed out'', ''network error'', ''connection closed'',
      ''sfu'', ''coordinator'']"

definition errorMessage :: "thrown \<Rightarrow> string" where
  "errorMessage e = (case message e of None \<Rightarrow> [] | Some m \<Rightarrow> toLowerCase m)"

definition errorString :: "thrown \<Rightarrow> string" where
  "errorString e = toLowerCase (asString e)"

definition isRateLimitError :: "thrown \<Rightarrow> bool" where
  "isRateLimitError e =
     list_ex (\<lambda>indicator. str_includes (errorMessage e) indicator \<or> str_includes (errorString e) indicator)
       rateLimitIndicators"

definition isWebSocketError :: "thrown \<Rightarrow> bool" where
  "isWebSocketError e =
     list_ex (\<lambda>indicator. str_includes (errorMessage e) indicator \<or> str_includes (errorString e) indicator)
       wsErrorIndicators"

section \<open>The rate limit handler\<close>

text \<open>
  The fields of the class \<open>RateLimitHandler\<close>.  The JavaScript maps are partial functions,
  the set of blocked operations is a set of keys.  Times are milliseconds as returned by
  \<open>Date.now()\<close>.  The field \<open>minRequestInterval\<close> is set to 2000 by the constructor and never
  assigned again, so it is a constant here.
\<close>

record wsAttempts =
  count :: nat
  firstAttempt :: int

record RateLimitHandler =
  retryAttempts :: "string \<rightharpoonup> nat"
  lastRequestTime :: "string \<rightharpoonup> int"
  connectionAttempts :: "string \<rightharpoonup> wsAttempts"
  blockedOperations :: "string set"

definition minRequestInterval :: int where
  "minRequestInterval = 2000"

text \<open>The template literals for the keys of the maps.\<close>

definition opKey :: "string \<Rightarrow> string \<Rightarrow> string" where
  "opKey userId operation = userId @ ''-'' @ operation"

definition wsKey :: "string \<Rightarrow> string \<Rightarrow> string" where
  "wsKey userId type = userId @ ''-ws-'' @ type"

subsection \<open>Numbers\<close>

text \<open>
  JavaScript numbers are IEEE doubles: every arithmetic operation yields the rounded value of
  the exact result.  The engine of a run gives the values drawn by \<open>Math.random()\<close> and the
  rounding.  Double rounding is monotone and exact on the numbers it represents, among them
  every whole number of magnitude up to \<open>2 ^ 53\<close>; a result too large to represent is rounded
  to a value above every number represented.  Only these properties are used.
\<close>

record jsEngine =
  mathRandom :: "nat \<Rightarrow> real"
  rounded :: "real \<Rightarrow> real"

definition doubleRounding :: "(real \<Rightarrow> real) \<Rightarrow> bool" where
  "doubleRounding fl =
     ((\<forall>x y. x \<le> y \<longrightarrow> fl x \<le> fl y)
      \<and> (\<forall>n :: int. \<bar>n\<bar> \<le> 2 ^ 53 \<longrightarrow> fl (of_int n) = of_int n))"

subsection \<open>Backoff\<close>

text \<open>
  \<open>calculateBackoffDelay(attempt)\<close>, with the rounding \<open>fl\<close> of the arithmetic and the value
  \<open>rnd\<close> drawn by \<open>Math.random()\<close> (a number in \<open>[0, 1)\<close>).
\<close>

definition calculateBackoffDelay :: "(real \<Rightarrow> real) \<Rightarrow> nat \<Rightarrow> real \<Rightarrow> real" where
  "calculateBackoffDelay fl attempt rnd =
     (let baseDelay = 2000;
          maxDelay = 60000;
          delay = min (fl (baseDelay * fl (2 ^ attempt))) maxDelay
      in fl (delay + fl (rnd * 1000)))"

subsection \<open>The rate limit gate\<close>

text \<open>
  \<open>intervals[operation] || this.minRequestInterval\<close>.  The table is an object literal, so
  a name that the object inherits from \<open>Object.prototype\<close> reads a function or an object,
  which is truthy and compares false with every number: the result \<open>None\<close> stands for
  such a value, for which the interval test never holds.
\<close>

definition objectPrototypeNames :: "string list" where
  "objectPrototypeNames =
     [''constructor'', ''hasOwnProperty'', ''isPrototypeOf'', ''propertyIsEnumerable'',
      ''toLocaleString'', ''toString'', ''valueOf'', ''__proto__'', ''__defineGetter__'',
      ''__defineSetter__'', ''__lookupGetter__'', ''__lookupSetter__'']"

definition intervalFor :: "string \<Rightarrow> int option" where
  "intervalFor operation =
     (if operation = ''video-call'' then Some 5000
      else if operation = ''channel-create'' then Some 3000
      else if operation = ''user-connect'' then Some 4000
      else if operation = ''send-message'' then Some 1000
      else if operation = ''default'' then Some minRequestInterval
      else if operation \<in> set objectPrototypeNames then None
      else Some minRequestInterval)"

text \<open>
  \<open>shouldRateLimit(userId, operation)\<close> at the time \<open>now\<close>.  The test \<open>lastRequest && ...\<close>
  is false for a missing entry and for the time stamp 0.
\<close>

definition shouldRateLimit ::
  "'z RateLimitHandler_scheme \<Rightarrow> int \<Rightarrow> string \<Rightarrow> string \<Rightarrow> bool \<times> 'z RateLimitHandler_scheme" where
  "shouldRateLimit h now userId operation =
     (let key = opKey userId operation;
          lastRequest = lastRequestTime h key
      in if key \<in> blockedOperations h then (True, h)
         else if (case lastRequest of
                    None \<Rightarrow> False
                  | Some l \<Rightarrow> l \<noteq> 0 \<and>
                      (case intervalFor operation of None \<Rightarrow> False | Some interval \<Rightarrow> now - l < interval))
           then (True, h)
         else (False, h\<lparr>lastRequestTime := (lastRequestTime h)(key \<mapsto> now)\<rparr>))"

subsection \<open>The WebSocket attempt gate\<close>

definition shouldRateLimitWebSocket ::
  "'z RateLimitHandler_scheme \<Rightarrow> int \<Rightarrow> string \<Rightarrow> string \<Rightarrow> bool \<times> 'z RateLimitHandler_scheme" where
  "shouldRateLimitWebSocket h now userId type =
     (let key = wsKey userId type;
          attempts = (case connectionAttempts h key of
                        None \<Rightarrow> \<lparr>count = 0, firstAttempt = now\<rparr>
                      | Some a \<Rightarrow> a)
      in if now - firstAttempt attempts > 300000
           then (False, h\<lparr>connectionAttempts := (connectionAttempts h)(key := None)\<rparr>)
         else if count attempts \<ge> 5 then (True, h)
         else (False, h\<lparr>connectionAttempts :=
                 (connectionAttempts h)(key \<mapsto> attempts\<lparr>count := count attempts + 1\<rparr>)\<rparr>))"

subsection \<open>Clearing a user's entries\<close>

text \<open>
  \<open>clearUserAttempts(userId)\<close>: the keys of \<open>retryAttempts\<close> and of \<open>lastRequestTime\<close> that
  start with \<open>userId\<close> are collected in \<open>keysToDelete\<close>; the entries of \<open>blockedOperations\<close>
  and \<open>connectionAttempts\<close> are deleted while iterating; at the end every collected key is
  deleted from both \<open>retryAttempts\<close> and \<open>lastRequestTime\<close>.
\<close>

definition deleteKeys :: "('k \<rightharpoonup> 'v) \<Rightarrow> 'k set \<Rightarrow> ('k \<rightharpoonup> 'v)" where
  "deleteKeys m ks = (\<lambda>k. if k \<in> ks then None else m k)"

definition clearUserAttempts :: "'z RateLimitHandler_scheme \<Rightarrow> string \<Rightarrow> 'z RateLimitHandler_scheme" where
  "clearUserAttempts h userId =
     (let keysToDelete =
            {key \<in> dom (retryAttempts h). startsWith key userId} \<union>
            {key \<in> dom (lastRequestTime h). startsWith key userId}
      in h\<lparr>blockedOperations := {key \<in> blockedOperations h. \<not> startsWith key userId},
            connectionAttempts :=
              deleteKeys (connectionAttempts h) {key \<in> dom (connectionAttempts h). startsWith key userId},
            retryAttempts := deleteKeys (retryAttempts h) keysToDelete,
            lastRequestTime := deleteKeys (lastRequestTime h) keysToDelete\<rparr>)"

section \<open>The retry coordinator\<close>

text \<open>
  \<open>executeWithRetry\<close> is asynchronous: it reads the clock, draws random numbers, sleeps,
  awaits the operation and registers a timer that unblocks the key.  The world of one
  sequential run holds the handler, the clock, the pending unblock timers (deadline and
  key), and three counters kept for the statements below: the operation invocations, the
  \<open>Math.random()\<close> draws and the recursive retries so far.
\<close>

record world = RateLimitHandler +
  clock :: int
  timers :: "(int \<times> string) list"
  calls :: nat
  draws :: nat
  retries :: nat

text \<open>
  The wrapped operation is given by the time its \<open>n\<close>-th invocation takes and what that
  invocation settles to.  The call runs alone: while it is suspended nothing but the
  unblock timers touches the handler, and the operation itself does not use it.  A call
  among other tasks follows further down.
\<close>

datatype 'a outcome = Resolved 'a | Rejected thrown

type_synonym 'a operation = "nat \<Rightarrow> int \<times> 'a outcome"

text \<open>
  Time passes only while the task is suspended.  When the clock moves, the callbacks of the
  timers that are due run first: each deletes its key from \<open>blockedOperations\<close>.
\<close>

definition advance :: "'z world_scheme \<Rightarrow> int \<Rightarrow> 'z world_scheme" where
  "advance w d =
     (let t = clock w + d;
          due = filter (\<lambda>(deadline, key). deadline \<le> t) (timers w)
      in w\<lparr>clock := t,
            timers := filter (\<lambda>(deadline, key). \<not> deadline \<le> t) (timers w),
            blockedOperations := blockedOperations w - snd ` set due\<rparr>)"

text \<open>
  \<open>isSystemOverloaded()\<close> sums the values of \<open>retryAttempts\<close> (a JavaScript map is finite)
  and counts the blocked keys; \<open>sleep(ms)\<close> stretches the delay by 1.5 when the system is
  overloaded and resumes when the timer of that many whole milliseconds fires;
  \<open>await operation()\<close> counts the invocation and resumes when the operation has settled.
\<close>

definition isSystemOverloaded :: "'z RateLimitHandler_scheme \<Rightarrow> bool" where
  "isSystemOverloaded h =
     (let totalAttempts = (\<Sum>key \<in> dom (retryAttempts h). the (retryAttempts h key));
          totalBlocked = card (blockedOperations h)
      in totalAttempts > 50 \<or> totalBlocked > 10)"

definition sleep :: "(real \<Rightarrow> real) \<Rightarrow> 'z world_scheme \<Rightarrow> real \<Rightarrow> 'z world_scheme" where
  "sleep fl w ms = advance w \<lfloor>if isSystemOverloaded w then fl (ms * 1.5) else ms\<rfloor>"

definition invoke :: "'a operation \<Rightarrow> 'z world_scheme \<Rightarrow> 'a outcome \<times> 'z world_scheme" where
  "invoke operation w =
     (case operation (calls w) of
        (d, r) \<Rightarrow> (r, advance (w\<lparr>calls := Suc (calls w)\<rparr>) d))"

text \<open>
  The steps of the body of \<open>executeWithRetry\<close>, on the world's clock: the WebSocket gate,
  consulted when the operation type includes \<open>video\<close> or \<open>connect\<close>; the rate limit gate,
  whose answer \<open>true\<close> makes the call sleep the backoff delay of the current attempt count
  before it goes on; the delay before a retry, doubled for a connection error; and the
  count read at entry, \<open>this.retryAttempts.get(key) || 0\<close>.
\<close>

definition usesWebSocketGate :: "string \<Rightarrow> bool" where
  "usesWebSocketGate operationType =
     (str_includes operationType ''video'' \<or> str_includes operationType ''connect'')"

definition checkWebSocket :: "string \<Rightarrow> string \<Rightarrow> 'z world_scheme \<Rightarrow> bool \<times> 'z world_scheme" where
  "checkWebSocket userId operationType w =
     (if usesWebSocketGate operationType
      then shouldRateLimitWebSocket w (clock w) userId operationType
      else (False, w))"

definition throttle ::
  "jsEngine \<Rightarrow> string \<Rightarrow> string \<Rightarrow> nat \<Rightarrow> 'z world_scheme \<Rightarrow> 'z world_scheme" where
  "throttle engine userId operationType attempt w =
     (case shouldRateLimit w (clock w) userId operationType of
        (True, w') \<Rightarrow>
          sleep (rounded engine) (w'\<lparr>draws := Suc (draws w')\<rparr>)
            (calculateBackoffDelay (rounded engine) attempt (mathRandom engine (draws w')))
      | (False, w') \<Rightarrow> w')"

definition retryDelay :: "jsEngine \<Rightarrow> thrown \<Rightarrow> nat \<Rightarrow> 'z world_scheme \<Rightarrow> 'z world_scheme" where
  "retryDelay engine error attempt w =
     (let delay = calculateBackoffDelay (rounded engine) attempt (mathRandom engine (draws w));
          delay = (if isWebSocketError error then rounded engine (delay * 2) else delay)
      in sleep (rounded engine) (w\<lparr>draws := Suc (draws w)\<rparr>) delay)"

definition storedAttempt :: "'z RateLimitHandler_scheme \<Rightarrow> string \<Rightarrow> nat" where
  "storedAttempt h key = (case retryAttempts h key of None \<Rightarrow> 0 | Some n \<Rightarrow> n)"

text \<open>
  \<open>executeWithRetry(operation, userId, operationType, maxRetries)\<close>.  The result is the
  value the promise settles to (\<open>Inl\<close> the rejection) and the world at that moment.
\<close>

function executeWithRetry ::
  "'a operation \<Rightarrow> jsEngine \<Rightarrow> string \<Rightarrow> string \<Rightarrow> nat \<Rightarrow> 'z world_scheme
     \<Rightarrow> (thrown + 'a) \<times> 'z world_scheme" where
  "executeWithRetry operation engine userId operationType maxRetries w =
     (let key = opKey userId operationType;
          attempt = storedAttempt w key
      in case checkWebSocket userId operationType w of
           (True, w1) \<Rightarrow>
             (Inl (newError ''WebSocket connection rate limit exceeded. Please wait 5 minutes.''), w1)
         | (False, w1) \<Rightarrow>
             (case invoke operation (throttle engine userId operationType attempt w1) of
                (Resolved result, w2) \<Rightarrow>
                  (Inr result,
                   w2\<lparr>retryAttempts := (retryAttempts w2)(key := None),
                      blockedOperations := blockedOperations w2 - {key}\<rparr>)
              | (Rejected error, w2) \<Rightarrow>
                  if isRateLimitError error \<or> isWebSocketError error then
                    if attempt < maxRetries then
                      executeWithRetry operation engine userId operationType maxRetries
                        (retryDelay engine error (attempt + 1)
                           (w2\<lparr>retryAttempts := (retryAttempts w2)(key \<mapsto> attempt + 1),
                               retries := Suc (retries w2)\<rparr>))
                    else
                      (Inl (if isWebSocketError error
                            then newError ''Video connection failed. Please refresh the page and try again.''
                            else newError ''Rate limit exceeded. Please wait 5 minutes before trying again.''),
                       w2\<lparr>blockedOperations := insert key (blockedOperations w2),
                          timers := timers w2 @ [(clock w2 + 300000, key)]\<rparr>)
                  else (Inl error, w2)))"
  by pat_completeness auto
termination
proof (relation "measure (\<lambda>(operation, engine, userId, operationType, maxRetries, w).
                   maxRetries - storedAttempt w (opKey userId operationType))", goal_cases)
  case 1
  show ?case by simp
next
  case 2
  then show ?case
    by (simp add: storedAttempt_def retryDelay_def sleep_def advance_def Let_def)
qed

text \<open>
  Names for the statements: the world when the first invocation of a call has settled (after
  the gates and the throttling delay), the error thrown by the WebSocket gate, and the
  error thrown when the retries are exhausted.
\<close>

definition afterAttempt ::
  "'a operation \<Rightarrow> jsEngine \<Rightarrow> string \<Rightarrow> string \<Rightarrow> 'z world_scheme \<Rightarrow> 'z world_scheme" where
  "afterAttempt operation engine userId operationType w =
     snd (invoke operation
            (throttle engine userId operationType
               (storedAttempt w (opKey userId operationType))
               (snd (checkWebSocket userId operationType w))))"

definition wsLimitError :: thrown where
  "wsLimitError = newError ''WebSocket connection rate limit exceeded. Please wait 5 minutes.''"

definition terminalError :: "thrown \<Rightarrow> thrown" where
  "terminalError error =
     (if isWebSocketError error
      then newError ''Video connection failed. Please refresh the page and try again.''
      else newError ''Rate limit exceeded. Please wait 5 minutes before trying again.'')"

text \<open>
  The world in which a retry starts: the incremented count stored, the backoff slept.
\<close>

definition retryWorld ::
  "'a operation \<Rightarrow> jsEngine \<Rightarrow> string \<Rightarrow> string \<Rightarrow> thrown \<Rightarrow> 'z world_scheme \<Rightarrow> 'z world_scheme" where
  "retryWorld operation engine userId operationType error w =
     (let key = opKey userId operationType;
          attempt = storedAttempt w key;
          w2 = afterAttempt operation engine userId operationType w
      in retryDelay engine error (attempt + 1)
           (w2\<lparr>retryAttempts := (retryAttempts w2)(key \<mapsto> attempt + 1),
               retries := Suc (retries w2)\<rparr>))"

text \<open>The errors that \<open>executeWithRetry\<close> retries.\<close>

definition retryable :: "thrown \<Rightarrow> bool" where
  "retryable error = (isRateLimitError error \<or> isWebSocketError error)"

text \<open>
  The WebSocket gate has room for \<open>k\<close> further attempts of the subject and type: the gate
  is not consulted for the operation type, or the recorded count leaves \<open>k\<close> attempts.
\<close>

definition wsRoom :: "'z RateLimitHandler_scheme \<Rightarrow> string \<Rightarrow> string \<Rightarrow> nat \<Rightarrow> bool" where
  "wsRoom h userId operationType k =
     (if usesWebSocketGate operationType
      then (case connectionAttempts h (wsKey userId operationType) of
              None \<Rightarrow> k \<le> 5
            | Some a \<Rightarrow> count a + k \<le> 5)
      else True)"

section \<open>A call among other tasks\<close>

text \<open>
  \<open>executeWithRetry\<close> above is a call that runs alone.  The handler is shared by all tasks of
  the page, and while a call is suspended another task can run: here it can call
  \<open>clearUserAttempts(userId)\<close>, as \<open>cleanupConnection\<close> of the chat page does.  The schedule
  \<open>others\<close> says what the other tasks do during the sleep before the retry with a given
  number.
\<close>

datatype interference = Idle | Clears string

fun interfere :: "interference \<Rightarrow> 'z world_scheme \<Rightarrow> 'z world_scheme" where
  "interfere Idle w = w"
| "interfere (Clears userId) w = clearUserAttempts w userId"

text \<open>
  The same body with fuel for the recursion, since the count that bounds it is now shared:
  \<open>None\<close> means that the call has not settled within the fuel.  The other tasks act while
  the call sleeps before a retry, after it has stored the incremented count (line 108) and
  before the retry reads the count again (line 78).
\<close>

fun executeWithRetryAmong ::
  "(nat \<Rightarrow> interference) \<Rightarrow> nat \<Rightarrow> 'a operation \<Rightarrow> jsEngine \<Rightarrow> string \<Rightarrow> string \<Rightarrow> nat
     \<Rightarrow> 'z world_scheme \<Rightarrow> ((thrown + 'a) \<times> 'z world_scheme) option" where
  "executeWithRetryAmong others 0 operation engine userId operationType maxRetries w = None"
| "executeWithRetryAmong others (Suc fuel) operation engine userId operationType maxRetries w =
     (let key = opKey userId operationType;
          attempt = storedAttempt w key
      in case checkWebSocket userId operationType w of
           (True, w1) \<Rightarrow>
             Some (Inl (newError ''WebSocket connection rate limit exceeded. Please wait 5 minutes.''), w1)
         | (False, w1) \<Rightarrow>
             (case invoke operation (throttle engine userId operationType attempt w1) of
                (Resolved result, w2) \<Rightarrow>
                  Some (Inr result,
                        w2\<lparr>retryAttempts := (retryAttempts w2)(key := None),
                           blockedOperations := blockedOperations w2 - {key}\<rparr>)
              | (Rejected error, w2) \<Rightarrow>
                  if isRateLimitError error \<or> isWebSocketError error then
                    if attempt < maxRetries then
                      executeWithRetryAmong others fuel operation engine userId operationType maxRetries
                        (interfere (others (retries w2))
                           (retryDelay engine error (attempt + 1)
                              (w2\<lparr>retryAttempts := (retryAttempts w2)(key \<mapsto> attempt + 1),
                                  retries := Suc (retries w2)\<rparr>)))
                    else
                      Some (Inl (if isWebSocketError error
                                 then newError ''Video connection failed. Please refresh the page and try again.''
                                 else newError ''Rate limit exceeded. Please wait 5 minutes before trying again.''),
                            w2\<lparr>blockedOperations := insert key (blockedOperations w2),
                               timers := timers w2 @ [(clock w2 + 300000, key)]\<rparr>)
                  else Some (Inl error, w2)))"

section \<open>The channel cache of the chat page\<close>

text \<open>
  \<open>ChatPage.jsx\<close> keeps the module-level map \<open>channelCache\<close> and uses the global handler.
  \<open>getOrCreateChannel(client, channelId, members)\<close> builds the closure \<open>channelOperation\<close>
  from its arguments (create the channel, watch it, return it); the closure is the
  operation given here, and \<open>authUserId\<close> is \<open>authUser._id\<close>.
\<close>

record 'c chatPage = world +
  channelCache :: "string \<rightharpoonup> 'c"

definition getOrCreateChannel ::
  "'c operation \<Rightarrow> jsEngine \<Rightarrow> string \<Rightarrow> string \<Rightarrow> ('c, 'z) chatPage_scheme
     \<Rightarrow> (thrown + 'c) \<times> ('c, 'z) chatPage_scheme" where
  "getOrCreateChannel channelOperation engine authUserId channelId p =
     (case channelCache p channelId of
        Some channel \<Rightarrow> (Inr channel, p)
      | None \<Rightarrow>
          (case executeWithRetry channelOperation engine authUserId ''channel-create'' 2 p of
             (Inl error, p') \<Rightarrow> (Inl error, p')
           | (Inr channel, p') \<Rightarrow>
               (Inr channel, p'\<lparr>channelCache := (channelCache p')(channelId \<mapsto> channel)\<rparr>)))"

section \<open>Initial states and runs\<close>

text \<open>The handler as the constructor leaves it, and a world around it at a given time.\<close>

definition newRateLimitHandler :: RateLimitHandler where
  "newRateLimitHandler =
     \<lparr>retryAttempts = Map.empty, lastRequestTime = Map.empty,
      connectionAttempts = Map.empty, blockedOperations = {}\<rparr>"

definition newWorld :: "int \<Rightarrow> world" where
  "newWorld t =
     \<lparr>retryAttempts = Map.empty, lastRequestTime = Map.empty,
      connectionAttempts = Map.empty, blockedOperations = {},
      clock = t, timers = [], calls = 0, draws = 0, retries = 0\<rparr>"

definition newChatPage :: "int \<Rightarrow> 'c chatPage" where
  "newChatPage t =
     \<lparr>retryAttempts = Map.empty, lastRequestTime = Map.empty,
      connectionAttempts = Map.empty, blockedOperations = {},
      clock = t, timers = [], calls = 0, draws = 0, retries = 0,
      channelCache = Map.empty\<rparr>"

text \<open>
  Environments for concrete runs: an engine that always draws 0 and computes exactly
  (every number of such a run is a whole number), and operations that
  settle at once, rejected with a given error always or a number of times before they
  resolve to a value.
\<close>

definition noJitter :: jsEngine where
  "noJitter = \<lparr>mathRandom = (\<lambda>n. 0), rounded = (\<lambda>x. x)\<rparr>"

definition alwaysRejects :: "thrown \<Rightarrow> 'a operation" where
  "alwaysRejects error n = (0, Rejected error)"

definition failsThenResolves :: "nat \<Rightarrow> thrown \<Rightarrow> 'a \<Rightarrow> 'a operation" where
  "failsThenResolves k error v n = (0, if n < k then Rejected error else Resolved v)"

text \<open>
  A world in which subject \<open>u1\<close> has used its five \<open>video-call\<close> attempts of the current
  window.
\<close>

definition wsExhausted :: world where
  "wsExhausted =
     (newWorld 2000)\<lparr>connectionAttempts :=
        [wsKey ''u1'' ''video-call'' \<mapsto> \<lparr>count = 5, firstAttempt = 1000\<rparr>]\<rparr>"

text \<open>
  The world that a call for \<open>u1\<close> and \<open>send-message\<close> with \<open>maxRetries = 2\<close>, started at time
  1000, leaves when the operation has failed three times with a rate-limit error: backoffs
  of 4000 and 8000 slept, the key blocked until 313000.
\<close>

definition afterThreeFailures :: world where
  "afterThreeFailures =
     \<lparr>retryAttempts = [opKey ''u1'' ''send-message'' \<mapsto> 2],
      lastRequestTime = [opKey ''u1'' ''send-message'' \<mapsto> 13000],
      connectionAttempts = Map.empty,
      blockedOperations = {opKey ''u1'' ''send-message''},
      clock = 13000, timers = [(313000, opKey ''u1'' ''send-message'')],
      calls = 3, draws = 2, retries = 2\<rparr>"

text \<open>The answers of the WebSocket gate to a sequence of calls at the given times.\<close>

fun wsCalls :: "'z RateLimitHandler_scheme \<Rightarrow> string \<Rightarrow> string \<Rightarrow> int list \<Rightarrow> bool list" where
  "wsCalls h userId type [] = []"
| "wsCalls h userId type (now # ts) =
     (case shouldRateLimitWebSocket h now userId type of
        (blocked, h') \<Rightarrow> blocked # wsCalls h' userId type ts)"

section \<open>What the steps of a call leave unchanged\<close>

declare executeWithRetry.simps [simp del]

lemma advance_fields [simp]:
  "retryAttempts (advance w d) = retryAttempts w"
  "connectionAttempts (advance w d) = connectionAttempts w"
  "lastRequestTime (advance w d) = lastRequestTime w"
  "calls (advance w d) = calls w"
  "draws (advance w d) = draws w"
  "retries (advance w d) = retries w"
  by (simp_all add: advance_def Let_def)

lemma sleep_fields [simp]:
  "retryAttempts (sleep fl w ms) = retryAttempts w"
  "connectionAttempts (sleep fl w ms) = connectionAttempts w"
  "lastRequestTime (sleep fl w ms) = lastRequestTime w"
  "calls (sleep fl w ms) = calls w"
  "draws (sleep fl w ms) = draws w"
  "retries (sleep fl w ms) = retries w"
  by (simp_all add: sleep_def)

lemma invoke_fields [simp]:
  "fst (invoke operation w) = snd (operation (calls w))"
  "retryAttempts (snd (invoke operation w)) = retryAttempts w"
  "connectionAttempts (snd (invoke operation w)) = connectionAttempts w"
  "calls (snd (invoke operation w)) = Suc (calls w)"
  "retries (snd (invoke operation w)) = retries w"
  by (simp_all add: invoke_def split: prod.splits)

lemma shouldRateLimit_fields [simp]:
  "retryAttempts (snd (shouldRateLimit h now userId operation)) = retryAttempts h"
  "connectionAttempts (snd (shouldRateLimit h now userId operation)) = connectionAttempts h"
  "blockedOperations (snd (shouldRateLimit h now userId operation)) = blockedOperations h"
  by (simp_all add: shouldRateLimit_def Let_def)

lemma shouldRateLimit_world_fields [simp]:
  "calls (snd (shouldRateLimit w now userId operation)) = calls w"
  "retries (snd (shouldRateLimit w now userId operation)) = retries w"
  "draws (snd (shouldRateLimit w now userId operation)) = draws w"
  "clock (snd (shouldRateLimit w now userId operation)) = clock w"
  by (simp_all add: shouldRateLimit_def Let_def)

lemma shouldRateLimitWebSocket_fields [simp]:
  "retryAttempts (snd (shouldRateLimitWebSocket h now userId type)) = retryAttempts h"
  "lastRequestTime (snd (shouldRateLimitWebSocket h now userId type)) = lastRequestTime h"
  "blockedOperations (snd (shouldRateLimitWebSocket h now userId type)) = blockedOperations h"
  by (simp_all add: shouldRateLimitWebSocket_def Let_def)

lemma shouldRateLimitWebSocket_world_fields [simp]:
  "calls (snd (shouldRateLimitWebSocket w now userId type)) = calls w"
  "retries (snd (shouldRateLimitWebSocket w now userId type)) = retries w"
  "clock (snd (shouldRateLimitWebSocket w now userId type)) = clock w"
  by (simp_all add: shouldRateLimitWebSocket_def Let_def)

lemma checkWebSocket_fields [simp]:
  "retryAttempts (snd (checkWebSocket userId operationType w)) = retryAttempts w"
  "blockedOperations (snd (checkWebSocket userId operationType w)) = blockedOperations w"
  "calls (snd (checkWebSocket userId operationType w)) = calls w"
  "retries (snd (checkWebSocket userId operationType w)) = retries w"
  "clock (snd (checkWebSocket userId operationType w)) = clock w"
  by (simp_all add: checkWebSocket_def)

lemma throttle_eq:
  "throttle engine userId operationType attempt w =
     (let w' = snd (shouldRateLimit w (clock w) userId operationType)
      in if fst (shouldRateLimit w (clock w) userId operationType)
         then sleep (rounded engine) (w'\<lparr>draws := Suc (draws w')\<rparr>)
                (calculateBackoffDelay (rounded engine) attempt (mathRandom engine (draws w')))
         else w')"
  by (cases "shouldRateLimit w (clock w) userId operationType")
     (auto simp: throttle_def Let_def)

lemma throttle_fields [simp]:
  "retryAttempts (throttle engine userId operationType attempt w) = retryAttempts w"
  "connectionAttempts (throttle engine userId operationType attempt w) = connectionAttempts w"
  "calls (throttle engine userId operationType attempt w) = calls w"
  "retries (throttle engine userId operationType attempt w) = retries w"
  by (simp_all add: throttle_eq Let_def)

lemma retryDelay_fields [simp]:
  "retryAttempts (retryDelay engine error attempt w) = retryAttempts w"
  "connectionAttempts (retryDelay engine error attempt w) = connectionAttempts w"
  "calls (retryDelay engine error attempt w) = calls w"
  "retries (retryDelay engine error attempt w) = retries w"
  by (simp_all add: retryDelay_def Let_def)

lemma afterAttempt_fields [simp]:
  "retryAttempts (afterAttempt operation engine userId operationType w) = retryAttempts w"
  "connectionAttempts (afterAttempt operation engine userId operationType w) =
     connectionAttempts (snd (checkWebSocket userId operationType w))"
  "calls (afterAttempt operation engine userId operationType w) = Suc (calls w)"
  "retries (afterAttempt operation engine userId operationType w) = retries w"
  by (simp_all add: afterAttempt_def)

section \<open>One activation of the retry coordinator\<close>

text \<open>The body of \<open>executeWithRetry\<close>, with the results of its steps named.\<close>

lemma executeWithRetry_unfold:
  "executeWithRetry operation engine userId operationType maxRetries w =
     (let key = opKey userId operationType;
          attempt = storedAttempt w key;
          w2 = afterAttempt operation engine userId operationType w
      in if fst (checkWebSocket userId operationType w)
         then (Inl wsLimitError, snd (checkWebSocket userId operationType w))
         else (case snd (operation (calls w)) of
                 Resolved result \<Rightarrow>
                   (Inr result,
                    w2\<lparr>retryAttempts := (retryAttempts w2)(key := None),
                       blockedOperations := blockedOperations w2 - {key}\<rparr>)
               | Rejected error \<Rightarrow>
                   if isRateLimitError error \<or> isWebSocketError error then
                     if attempt < maxRetries then
                       executeWithRetry operation engine userId operationType maxRetries
                         (retryDelay engine error (attempt + 1)
                            (w2\<lparr>retryAttempts := (retryAttempts w2)(key \<mapsto> attempt + 1),
                                retries := Suc (retries w2)\<rparr>))
                     else
                       (Inl (terminalError error),
                        w2\<lparr>blockedOperations := insert key (blockedOperations w2),
                           timers := timers w2 @ [(clock w2 + 300000, key)]\<rparr>)
                   else (Inl error, w2)))"
proof (cases "checkWebSocket userId operationType w")
  case (Pair b w1)
  show ?thesis
  proof (cases "invoke operation (throttle engine userId operationType
                   (storedAttempt w (opKey userId operationType)) w1)")
    case inv: (Pair r w2)
    have r: "r = snd (operation (calls w))"
      using inv Pair invoke_fields(1) [of operation "throttle engine userId operationType
                   (storedAttempt w (opKey userId operationType)) w1"]
            checkWebSocket_fields(3) [of userId operationType w]
      by simp
    have w2: "afterAttempt operation engine userId operationType w = w2"
      using inv Pair by (simp add: afterAttempt_def)
    show ?thesis
      using Pair inv r w2
      by (subst executeWithRetry.simps)
         (auto simp: Let_def wsLimitError_def terminalError_def split: outcome.splits)
  qed
qed


lemma wsRoom_pass:
  assumes "wsRoom w userId operationType (Suc k)"
  shows "\<not> fst (checkWebSocket userId operationType w)"
    and "wsRoom (snd (checkWebSocket userId operationType w)) userId operationType k"
  using assms
  by (auto simp: wsRoom_def checkWebSocket_def shouldRateLimitWebSocket_def
      Let_def split: option.splits if_splits)

lemma wsRoom_cong:
  "connectionAttempts h = connectionAttempts h' \<Longrightarrow> wsRoom h u t k = wsRoom h' u t k"
  by (simp add: wsRoom_def)

lemma storedAttempt_retryDelay [simp]:
  "storedAttempt (retryDelay engine error a w) key = storedAttempt w key"
  by (simp add: storedAttempt_def)

lemma storedAttempt_updates [simp]:
  "storedAttempt (w\<lparr>retryAttempts := m\<rparr>) key = (case m key of None \<Rightarrow> 0 | Some n \<Rightarrow> n)"
  "storedAttempt (w\<lparr>retries := r\<rparr>) key = storedAttempt w key"
  "storedAttempt (w\<lparr>blockedOperations := b\<rparr>) key = storedAttempt w key"
  "storedAttempt (w\<lparr>timers := ts\<rparr>) key = storedAttempt w key"
  by (simp_all add: storedAttempt_def)

lemma storedAttempt_afterAttempt [simp]:
  "storedAttempt (afterAttempt operation engine userId operationType w) key = storedAttempt w key"
  by (simp add: storedAttempt_def)

lemma executeWithRetry_bounded:
  "calls w \<le> calls (snd (executeWithRetry operation engine userId operationType maxRetries w))
   \<and> calls (snd (executeWithRetry operation engine userId operationType maxRetries w))
       \<le> calls w + (maxRetries - storedAttempt w (opKey userId operationType)) + 1
   \<and> retries w \<le> retries (snd (executeWithRetry operation engine userId operationType maxRetries w))
   \<and> retries (snd (executeWithRetry operation engine userId operationType maxRetries w))
       \<le> retries w + (maxRetries - storedAttempt w (opKey userId operationType))"
proof (induction "maxRetries - storedAttempt w (opKey userId operationType)" arbitrary: w)
  case 0
  then have "\<not> storedAttempt w (opKey userId operationType) < maxRetries" by simp
  then show ?case
    by (subst (1 2 3 4) executeWithRetry_unfold) (simp add: Let_def split: outcome.splits)
next
  case (Suc n)
  let ?key = "opKey userId operationType"
  let ?w2 = "afterAttempt operation engine userId operationType w"
  have step: "n = maxRetries - storedAttempt
        (retryDelay engine e (storedAttempt w ?key + 1)
           (?w2\<lparr>retryAttempts := (retryAttempts ?w2)(?key \<mapsto> storedAttempt w ?key + 1),
                 retries := Suc (retries ?w2)\<rparr>)) ?key" for e
    using Suc.hyps(2) by simp
  show ?case
  proof (cases "fst (checkWebSocket userId operationType w)")
    case True
    then show ?thesis
      by (subst (1 2 3 4) executeWithRetry_unfold) (simp add: Let_def)
  next
    case False
    show ?thesis
    proof (cases "snd (operation (calls w))")
      case (Resolved v)
      with False show ?thesis
        by (subst (1 2 3 4) executeWithRetry_unfold) (simp add: Let_def)
    next
      case (Rejected e)
      show ?thesis
      proof (cases "isRateLimitError e \<or> isWebSocketError e")
        case True
        from Suc.hyps(2) have lt: "storedAttempt w ?key < maxRetries" by simp
        note IH = Suc.hyps(1) [OF step [of e]]
        from False Rejected True lt
        have eq: "executeWithRetry operation engine userId operationType maxRetries w =
          executeWithRetry operation engine userId operationType maxRetries
            (retryDelay engine e (storedAttempt w ?key + 1)
              (?w2\<lparr>retryAttempts := (retryAttempts ?w2)(?key \<mapsto> storedAttempt w ?key + 1),
                    retries := Suc (retries ?w2)\<rparr>))"
          by (subst executeWithRetry_unfold) (simp add: Let_def)
        show ?thesis
          using IH lt unfolding eq by simp arith
      next
        case unclassified: False
        with False Rejected show ?thesis
          by (subst (1 2 3 4) executeWithRetry_unfold) (simp add: Let_def)
      qed
    qed
  qed
qed

lemma checkWebSocket_other [simp]:
  "\<not> usesWebSocketGate operationType \<Longrightarrow> checkWebSocket userId operationType w = (False, w)"
  by (simp add: checkWebSocket_def)

text \<open>The five ways an activation ends.\<close>

lemma executeWithRetry_ws_blocked:
  assumes "fst (checkWebSocket userId operationType w)"
  shows "executeWithRetry operation engine userId operationType maxRetries w =
           (Inl wsLimitError, snd (checkWebSocket userId operationType w))"
  using assms by (subst executeWithRetry_unfold) (simp add: Let_def)

lemma executeWithRetry_resolved:
  assumes "\<not> fst (checkWebSocket userId operationType w)"
    and "snd (operation (calls w)) = Resolved v"
  shows "executeWithRetry operation engine userId operationType maxRetries w =
           (Inr v,
            (afterAttempt operation engine userId operationType w)
              \<lparr>retryAttempts :=
                 (retryAttempts (afterAttempt operation engine userId operationType w))
                   (opKey userId operationType := None),
               blockedOperations :=
                 blockedOperations (afterAttempt operation engine userId operationType w)
                   - {opKey userId operationType}\<rparr>)"
  using assms by (subst executeWithRetry_unfold) (simp add: Let_def)

lemma executeWithRetry_hard_failure:
  assumes "\<not> fst (checkWebSocket userId operationType w)"
    and "snd (operation (calls w)) = Rejected error"
    and "\<not> retryable error"
  shows "executeWithRetry operation engine userId operationType maxRetries w =
           (Inl error, afterAttempt operation engine userId operationType w)"
  using assms by (subst executeWithRetry_unfold) (simp add: Let_def retryable_def)

lemma executeWithRetry_retry:
  assumes "\<not> fst (checkWebSocket userId operationType w)"
    and "snd (operation (calls w)) = Rejected error"
    and "retryable error"
    and "storedAttempt w (opKey userId operationType) < maxRetries"
  shows "executeWithRetry operation engine userId operationType maxRetries w =
           executeWithRetry operation engine userId operationType maxRetries
             (retryWorld operation engine userId operationType error w)"
  using assms
  by (subst executeWithRetry_unfold) (simp add: Let_def retryable_def retryWorld_def)

lemma executeWithRetry_exhausted:
  assumes "\<not> fst (checkWebSocket userId operationType w)"
    and "snd (operation (calls w)) = Rejected error"
    and "retryable error"
    and "\<not> storedAttempt w (opKey userId operationType) < maxRetries"
  shows "executeWithRetry operation engine userId operationType maxRetries w =
           (Inl (terminalError error),
            (afterAttempt operation engine userId operationType w)
              \<lparr>blockedOperations :=
                 insert (opKey userId operationType)
                   (blockedOperations (afterAttempt operation engine userId operationType w)),
               timers := timers (afterAttempt operation engine userId operationType w)
                 @ [(clock (afterAttempt operation engine userId operationType w) + 300000,
                     opKey userId operationType)]\<rparr>)"
  using assms
  by (subst executeWithRetry_unfold) (simp add: Let_def retryable_def)

lemma retryWorld_fields [simp]:
  "calls (retryWorld operation engine userId operationType error w) = Suc (calls w)"
  "retries (retryWorld operation engine userId operationType error w) = Suc (retries w)"
  "storedAttempt (retryWorld operation engine userId operationType error w)
     (opKey userId operationType) = Suc (storedAttempt w (opKey userId operationType))"
  "connectionAttempts (retryWorld operation engine userId operationType error w) =
     connectionAttempts (snd (checkWebSocket userId operationType w))"
  by (simp_all add: retryWorld_def Let_def)

text \<open>
  When every invocation within the budget is rejected with a retryable error and the
  WebSocket gate has room, the call uses the whole budget and ends with the terminal error,
  the key blocked and the count kept at \<open>maxRetries\<close>.
\<close>

lemma executeWithRetry_exhausts:
  assumes "storedAttempt w (opKey userId operationType) \<le> maxRetries"
    and "wsRoom w userId operationType (Suc (maxRetries - storedAttempt w (opKey userId operationType)))"
    and "\<forall>i \<le> maxRetries - storedAttempt w (opKey userId operationType).
           \<exists>e. snd (operation (calls w + i)) = Rejected e \<and> retryable e"
  shows "\<exists>e. snd (operation (calls w + (maxRetries - storedAttempt w (opKey userId operationType))))
                = Rejected e
            \<and> fst (executeWithRetry operation engine userId operationType maxRetries w)
                = Inl (terminalError e)
            \<and> calls (snd (executeWithRetry operation engine userId operationType maxRetries w))
                = calls w + (maxRetries - storedAttempt w (opKey userId operationType)) + 1
            \<and> retries (snd (executeWithRetry operation engine userId operationType maxRetries w))
                = retries w + (maxRetries - storedAttempt w (opKey userId operationType))
            \<and> opKey userId operationType
                \<in> blockedOperations (snd (executeWithRetry operation engine userId operationType maxRetries w))
            \<and> storedAttempt (snd (executeWithRetry operation engine userId operationType maxRetries w))
                (opKey userId operationType) = maxRetries"
  using assms
proof (induction "maxRetries - storedAttempt w (opKey userId operationType)" arbitrary: w)
  case 0
  let ?key = "opKey userId operationType"
  from 0 have stored: "storedAttempt w ?key = maxRetries" by simp
  from 0 have room: "wsRoom w userId operationType (Suc 0)" by simp
  from 0 obtain e where e: "snd (operation (calls w)) = Rejected e" "retryable e"
    by auto
  have gate: "\<not> fst (checkWebSocket userId operationType w)"
    using wsRoom_pass(1) [OF room] .
  have "\<not> storedAttempt w ?key < maxRetries" using stored by simp
  from executeWithRetry_exhausted
         [where operation = operation and w = w and engine = engine, OF gate e this]
  show ?case
    using e stored by simp
next
  case (Suc n)
  let ?key = "opKey userId operationType"
  from Suc.hyps(2) have lt: "storedAttempt w ?key < maxRetries" by simp
  from Suc have room: "wsRoom w userId operationType (Suc (Suc n))" by simp
  from Suc.prems(3) obtain e where e: "snd (operation (calls w)) = Rejected e" "retryable e"
    by (metis add.right_neutral le0)
  have gate: "\<not> fst (checkWebSocket userId operationType w)"
    using wsRoom_pass(1) [OF room] .
  let ?w' = "retryWorld operation engine userId operationType e w"
  have eq: "executeWithRetry operation engine userId operationType maxRetries w =
            executeWithRetry operation engine userId operationType maxRetries ?w'"
    using executeWithRetry_retry [where operation = operation and w = w, OF gate e lt] .
  have n: "n = maxRetries - storedAttempt ?w' ?key"
    using Suc.hyps(2) by simp
  have le': "storedAttempt ?w' ?key \<le> maxRetries" using lt by simp
  have room': "wsRoom ?w' userId operationType (Suc (maxRetries - storedAttempt ?w' ?key))"
    using wsRoom_pass(2) [OF room] n
    by (simp add: wsRoom_cong [of ?w' "snd (checkWebSocket userId operationType w)"])
  have fails': "\<forall>i \<le> maxRetries - storedAttempt ?w' ?key.
           \<exists>e. snd (operation (calls ?w' + i)) = Rejected e \<and> retryable e"
  proof (intro allI impI)
    fix i assume "i \<le> maxRetries - storedAttempt ?w' ?key"
    then have "Suc i \<le> maxRetries - storedAttempt w ?key" using lt by simp
    with Suc.prems(3) have "\<exists>e. snd (operation (calls w + Suc i)) = Rejected e \<and> retryable e"
      by blast
    then show "\<exists>e. snd (operation (calls ?w' + i)) = Rejected e \<and> retryable e" by simp
  qed
  note IH = Suc.hyps(1) [OF n le' room' fails', unfolded n [symmetric]]
  show ?case
    unfolding eq Suc.hyps(2) [symmetric] using IH by simp
qed

section \<open>Backoff bounds\<close>

lemma pow2_le_16: "a \<le> 4 \<Longrightarrow> (2::real) ^ a \<le> 16"
  using power_increasing [of a 4 "2::real"] by simp

lemma pow2_ge_32: "5 \<le> a \<Longrightarrow> (32::real) \<le> 2 ^ a"
  using power_increasing [of 5 a "2::real"] by simp

lemma doubleRounding_mono: "doubleRounding fl \<Longrightarrow> x \<le> y \<Longrightarrow> fl x \<le> fl y"
  by (simp add: doubleRounding_def)

lemma doubleRounding_exact:
  "doubleRounding fl \<Longrightarrow> \<bar>n\<bar> \<le> 2 ^ 53 \<Longrightarrow> fl (real_of_int n) = real_of_int n"
  by (simp add: doubleRounding_def)

lemma doubleRounding_id: "doubleRounding (\<lambda>x. x)"
  by (simp add: doubleRounding_def)

text \<open>Rounding to the nearest whole number, a coarse rounding with the same properties.\<close>

lemma doubleRounding_nearest: "doubleRounding (\<lambda>x. real_of_int (round x))"
  by (simp add: doubleRounding_def round_mono)

text \<open>The delay before the jitter is added: the exact power for small counts, the cap after.\<close>

lemma capped_small:
  assumes "doubleRounding fl" and "a \<le> 4"
  shows "min (fl (2000 * fl (2 ^ a))) 60000 = 2000 * 2 ^ a"
proof -
  have le: "(2::int) ^ a \<le> 16"
    using power_increasing [of a 4 "2::int"] assms(2) by simp
  have "fl (real_of_int (2 ^ a)) = real_of_int (2 ^ a)"
    using le by (intro doubleRounding_exact [OF assms(1)]) simp
  then have p: "fl (2 ^ a) = 2 ^ a" by simp
  have "fl (real_of_int (2000 * 2 ^ a)) = real_of_int (2000 * 2 ^ a)"
    using le by (intro doubleRounding_exact [OF assms(1)]) simp
  then have q: "fl (2000 * 2 ^ a) = 2000 * 2 ^ a" by simp
  show ?thesis using pow2_le_16 [OF assms(2)] by (simp add: p q)
qed

lemma capped_large:
  assumes "doubleRounding fl" and "5 \<le> a"
  shows "min (fl (2000 * fl (2 ^ a))) 60000 = 60000"
proof -
  have "fl (real_of_int 32) = real_of_int 32"
    by (intro doubleRounding_exact [OF assms(1)]) simp
  then have "fl 32 = 32" by simp
  with doubleRounding_mono [OF assms(1) pow2_ge_32 [OF assms(2)]]
  have "32 \<le> fl (2 ^ a)" by simp
  then have "64000 \<le> 2000 * fl (2 ^ a)" by simp
  from doubleRounding_mono [OF assms(1) this]
  have "fl 64000 \<le> fl (2000 * fl (2 ^ a))" .
  moreover have "fl (real_of_int 64000) = real_of_int 64000"
    by (intro doubleRounding_exact [OF assms(1)]) simp
  ultimately have "64000 \<le> fl (2000 * fl (2 ^ a))" by simp
  then show ?thesis by simp
qed

text \<open>A whole delay plus the rounded jitter stays between the delay and the delay plus 1000.\<close>

lemma jitter_added:
  assumes "doubleRounding fl" and "0 \<le> rnd" and "rnd < 1" and "0 \<le> d" and "d \<le> 60000"
  shows "real_of_int d \<le> fl (real_of_int d + fl (rnd * 1000))"
    and "fl (real_of_int d + fl (rnd * 1000)) \<le> real_of_int d + 1000"
proof -
  have e0: "fl 0 = 0" and e1000: "fl 1000 = 1000"
    using doubleRounding_exact [OF assms(1), of 0] doubleRounding_exact [OF assms(1), of 1000]
    by simp_all
  have ed: "fl (real_of_int d) = real_of_int d"
    using assms(4,5) by (intro doubleRounding_exact [OF assms(1)]) simp
  have "fl (real_of_int (d + 1000)) = real_of_int (d + 1000)"
    using assms(4,5) by (intro doubleRounding_exact [OF assms(1)]) simp
  then have ed': "fl (real_of_int d + 1000) = real_of_int d + 1000" by simp
  have "fl 0 \<le> fl (rnd * 1000)" and "fl (rnd * 1000) \<le> fl 1000"
    using assms(2,3) by (auto intro!: doubleRounding_mono [OF assms(1)])
  then have j: "0 \<le> fl (rnd * 1000)" "fl (rnd * 1000) \<le> 1000"
    by (simp_all add: e0 e1000)
  from j(1) have "fl (real_of_int d) \<le> fl (real_of_int d + fl (rnd * 1000))"
    by (intro doubleRounding_mono [OF assms(1)]) simp
  then show "real_of_int d \<le> fl (real_of_int d + fl (rnd * 1000))" by (simp add: ed)
  from j(2) have "fl (real_of_int d + fl (rnd * 1000)) \<le> fl (real_of_int d + 1000)"
    by (intro doubleRounding_mono [OF assms(1)]) simp
  then show "fl (real_of_int d + fl (rnd * 1000)) \<le> real_of_int d + 1000" by (simp add: ed')
qed

text \<open>
  Claim C4, as stated, fails: the delay is capped at 60000 before the jitter is added, so
  at attempt 5 with jitter 0 the result is 60000, below \<open>2000 * 2 ^ 5 = 64000\<close>.  Every
  number of this computation is a whole number, so the arithmetic is exact.
\<close>

theorem calculateBackoffDelay_uncapped_counterexample:
  "\<not> (2000 * 2 ^ 5 \<le> calculateBackoffDelay (\<lambda>x. x) 5 0
      \<and> calculateBackoffDelay (\<lambda>x. x) 5 0 < 2000 * 2 ^ 5 + 1000
      \<and> calculateBackoffDelay (\<lambda>x. x) 5 0 \<le> 61000)"
  by (simp add: calculateBackoffDelay_def)

text \<open>
  The upper bound cannot be strict either: the sum of the delay and a jitter below 1000 is
  rounded, and may round up to the delay plus 1000.  Here with the coarse rounding to whole
  numbers; double addition does the same for the draws next to 1.
\<close>

lemma calculateBackoffDelay_upper_bound_attained:
  "calculateBackoffDelay (\<lambda>x. real_of_int (round x)) 0 (9999 / 10000) = 2000 * 2 ^ 0 + 1000"
proof -
  have "round (9999 / 10 :: real) = 1000"
    by (simp add: round_def)
  then show ?thesis by (simp add: calculateBackoffDelay_def)
qed

text \<open>
  Claim C4, amended: with the arithmetic rounded as doubles are and a draw of
  \<open>Math.random()\<close> in \<open>[0, 1)\<close>, that is a jitter in \<open>[0, 1000)\<close>, the delay satisfies
  \<open>2000 * 2 ^ a \<le> backoff(a) \<le> 2000 * 2 ^ a + 1000\<close> for the attempt counts \<open>a \<le> 4\<close>, is
  at least the cap 60000 for \<open>a \<ge> 5\<close>, and is at most 61000 for every attempt count.
\<close>

theorem calculateBackoffDelay_bounds:
  assumes "doubleRounding fl" and "0 \<le> rnd" and "rnd < 1"
  shows "(a \<le> 4 \<longrightarrow> 2000 * 2 ^ a \<le> calculateBackoffDelay fl a rnd
                  \<and> calculateBackoffDelay fl a rnd \<le> 2000 * 2 ^ a + 1000)
       \<and> (5 \<le> a \<longrightarrow> 60000 \<le> calculateBackoffDelay fl a rnd)
       \<and> calculateBackoffDelay fl a rnd \<le> 61000"
proof (cases "a \<le> 4")
  case True
  have le: "(2::int) ^ a \<le> 16"
    using power_increasing [of a 4 "2::int"] True by simp
  have d: "min (fl (2000 * fl (2 ^ a))) 60000 = real_of_int (2000 * 2 ^ a)"
    using capped_small [OF assms(1) True] by simp
  have "0 \<le> (2000 * 2 ^ a :: int)" and "(2000 * 2 ^ a :: int) \<le> 60000"
    using le by simp_all
  from jitter_added [OF assms this]
  have "2000 * 2 ^ a \<le> calculateBackoffDelay fl a rnd"
    and "calculateBackoffDelay fl a rnd \<le> 2000 * 2 ^ a + 1000"
    by (simp_all add: calculateBackoffDelay_def Let_def d)
  moreover have "(2000 * 2 ^ a :: real) \<le> 32000"
    using pow2_le_16 [OF True] by simp
  ultimately show ?thesis using True by simp
next
  case False
  then have large: "5 \<le> a" by simp
  have d: "min (fl (2000 * fl (2 ^ a))) 60000 = real_of_int 60000"
    using capped_large [OF assms(1) large] by simp
  from jitter_added [OF assms, of 60000]
  have "60000 \<le> calculateBackoffDelay fl a rnd"
    and "calculateBackoffDelay fl a rnd \<le> 61000"
    by (simp_all add: calculateBackoffDelay_def Let_def d)
  then show ?thesis using False by simp
qed

theorem calculateBackoffDelay_bounds_witness:
  "doubleRounding (\<lambda>x. x) \<and> (0::real) \<le> 1/2 \<and> (1/2::real) < 1
   \<and> 2000 * 2 ^ 3 \<le> calculateBackoffDelay (\<lambda>x. x) 3 (1/2)
   \<and> calculateBackoffDelay (\<lambda>x. x) 3 (1/2) \<le> 2000 * 2 ^ 3 + 1000
   \<and> calculateBackoffDelay (\<lambda>x. x) 3 (1/2) \<le> 61000"
  using calculateBackoffDelay_bounds [OF doubleRounding_id, of "1/2" 3] doubleRounding_id
  by simp

section \<open>The WebSocket attempt gate\<close>

text \<open>
  In the window opened by the first attempt, five attempts pass and the sixth is blocked;
  a blocked call leaves the handler as it was.
\<close>

lemma shouldRateLimitWebSocket_first_window:
  assumes "connectionAttempts h (wsKey userId type) = None"
    and "t2 - t1 \<le> 300000" and "t3 - t1 \<le> 300000" and "t4 - t1 \<le> 300000"
    and "t5 - t1 \<le> 300000" and "t6 - t1 \<le> 300000"
  shows "wsCalls h userId type [t1, t2, t3, t4, t5, t6] = [False, False, False, False, False, True]"
  using assms by (simp add: shouldRateLimitWebSocket_def Let_def)

lemma shouldRateLimitWebSocket_blocked_unchanged:
  "fst (shouldRateLimitWebSocket h now userId type) \<Longrightarrow> snd (shouldRateLimitWebSocket h now userId type) = h"
  by (simp add: shouldRateLimitWebSocket_def Let_def split: if_splits)

text \<open>
  Claim C3 on a run of the code: five attempts pass and the sixth is blocked, but once the
  window has elapsed the resetting call passes without being counted, so six further calls
  pass (at 301001 to 301006) before the gate blocks again, not five.
\<close>

theorem shouldRateLimitWebSocket_after_reset:
  "wsCalls newRateLimitHandler ''u1'' ''connect''
     [1000, 1001, 1002, 1003, 1004, 1005,
      301001, 301002, 301003, 301004, 301005, 301006, 301007]
   = [False, False, False, False, False, True,
      False, False, False, False, False, False, True]"
  by (simp add: shouldRateLimitWebSocket_def newRateLimitHandler_def Let_def wsKey_def)

section \<open>The rate limit gate\<close>

text \<open>
  Claim C6: \<open>shouldRateLimit\<close> sets \<open>lastRequestTime\<close> of the key to the current time exactly
  when it answers not blocked, and leaves the handler unchanged when it answers blocked.
  Consequently, for a key that is not blocked, whose operation has the configured interval
  \<open>interval\<close> and which has not passed the gate within the interval before \<open>t1\<close>: the call at
  \<open>t1\<close> is not blocked, a call at \<open>t2\<close> within the interval after \<open>t1\<close> is blocked, and a
  call at \<open>t3\<close>, when the interval has elapsed, is not blocked again.  Times are those of
  \<open>Date.now()\<close>, which are positive.
\<close>

theorem shouldRateLimit_spacing:
  assumes "opKey userId operation \<notin> blockedOperations h"
    and "intervalFor operation = Some interval"
    and "\<forall>l. lastRequestTime h (opKey userId operation) = Some l \<longrightarrow> interval \<le> t1 - l"
    and "0 < t1" and "t2 - t1 < interval" and "interval \<le> t3 - t1"
    and "h1 = h\<lparr>lastRequestTime := (lastRequestTime h)(opKey userId operation \<mapsto> t1)\<rparr>"
  shows "shouldRateLimit h t1 userId operation = (False, h1)
       \<and> shouldRateLimit h1 t2 userId operation = (True, h1)
       \<and> shouldRateLimit h1 t3 userId operation =
           (False, h1\<lparr>lastRequestTime := (lastRequestTime h1)(opKey userId operation \<mapsto> t3)\<rparr>)
       \<and> snd (shouldRateLimit g now u operation') =
           (if fst (shouldRateLimit g now u operation') then g
            else g\<lparr>lastRequestTime := (lastRequestTime g)(opKey u operation' \<mapsto> now)\<rparr>)"
  using assms
  by (auto simp: shouldRateLimit_def Let_def split: option.splits)

theorem shouldRateLimit_spacing_witness:
  "opKey ''u1'' ''send-message'' \<notin> blockedOperations newRateLimitHandler
   \<and> intervalFor ''send-message'' = Some 1000
   \<and> lastRequestTime newRateLimitHandler (opKey ''u1'' ''send-message'') = None
   \<and> shouldRateLimit newRateLimitHandler 5000 ''u1'' ''send-message'' =
       (False, newRateLimitHandler\<lparr>lastRequestTime := [opKey ''u1'' ''send-message'' \<mapsto> 5000]\<rparr>)
   \<and> shouldRateLimit (newRateLimitHandler\<lparr>lastRequestTime := [opKey ''u1'' ''send-message'' \<mapsto> 5000]\<rparr>)
         5999 ''u1'' ''send-message'' =
       (True, newRateLimitHandler\<lparr>lastRequestTime := [opKey ''u1'' ''send-message'' \<mapsto> 5000]\<rparr>)
   \<and> shouldRateLimit (newRateLimitHandler\<lparr>lastRequestTime := [opKey ''u1'' ''send-message'' \<mapsto> 5000]\<rparr>)
         6000 ''u1'' ''send-message'' =
       (False, newRateLimitHandler\<lparr>lastRequestTime := [opKey ''u1'' ''send-message'' \<mapsto> 6000]\<rparr>)"
proof -
  have 1: "opKey ''u1'' ''send-message'' \<notin> blockedOperations newRateLimitHandler"
    by (simp add: newRateLimitHandler_def)
  have 2: "intervalFor ''send-message'' = Some 1000"
    by (simp add: intervalFor_def)
  have 3: "lastRequestTime newRateLimitHandler (opKey ''u1'' ''send-message'') = None"
    by (simp add: newRateLimitHandler_def)
  have 4: "\<forall>l. lastRequestTime newRateLimitHandler (opKey ''u1'' ''send-message'') = Some l
             \<longrightarrow> 1000 \<le> 5000 - l"
    using 3 by simp
  have 5: "newRateLimitHandler\<lparr>lastRequestTime := [opKey ''u1'' ''send-message'' \<mapsto> 5000]\<rparr> =
           newRateLimitHandler\<lparr>lastRequestTime :=
             (lastRequestTime newRateLimitHandler)(opKey ''u1'' ''send-message'' \<mapsto> 5000)\<rparr>"
    by (simp add: newRateLimitHandler_def)
  have 6: "0 < (5000::int)" "5999 - 5000 < (1000::int)" "(1000::int) \<le> 6000 - 5000"
    by simp_all
  show ?thesis
    using shouldRateLimit_spacing [OF 1 2 4 6 5, of newRateLimitHandler 0 "[]" "[]"] 1 2 3
    by simp
qed

section \<open>Clearing a user's entries\<close>

lemma startsWith_iff: "startsWith s p \<longleftrightarrow> (\<exists>r. s = p @ r)"
  by (induction s p rule: startsWith.induct) auto

lemma startsWith_append: "startsWith other userId \<Longrightarrow> startsWith (other @ rest) userId"
  by (auto simp: startsWith_iff)

lemma startsWith_append_unrelated:
  assumes "\<not> startsWith other userId" and "\<not> startsWith userId other"
  shows "\<not> startsWith (other @ rest) userId"
proof
  assume "startsWith (other @ rest) userId"
  then obtain r where "other @ rest = userId @ r" by (auto simp: startsWith_iff)
  then consider us where "other = userId @ us" | us where "userId = other @ us"
    by (auto simp: append_eq_append_conv2)
  then show False using assms by cases (auto simp: startsWith_iff)
qed

text \<open>
  Claim C10, as stated, fails in its last part: the entry of the subject \<open>ab\<close> for the
  operation \<open>x-call\<close> has the key \<open>ab-x-call\<close>, which starts with \<open>ab-x\<close>; clearing the user
  \<open>ab-x\<close> deletes it, although the id \<open>ab\<close> does not have \<open>ab-x\<close> as a prefix.
\<close>

theorem clearUserAttempts_other_subject_counterexample:
  "\<not> startsWith ''ab'' ''ab-x''
   \<and> retryAttempts (newRateLimitHandler\<lparr>retryAttempts := [opKey ''ab'' ''x-call'' \<mapsto> 1]\<rparr>)
         (opKey ''ab'' ''x-call'') = Some 1
   \<and> retryAttempts
         (clearUserAttempts (newRateLimitHandler\<lparr>retryAttempts := [opKey ''ab'' ''x-call'' \<mapsto> 1]\<rparr>) ''ab-x'')
         (opKey ''ab'' ''x-call'') = None"
  by (simp add: clearUserAttempts_def Let_def deleteKeys_def opKey_def newRateLimitHandler_def)

text \<open>
  Claim C10, amended: \<open>clearUserAttempts(userId)\<close> deletes from \<open>retryAttempts\<close>,
  \<open>lastRequestTime\<close>, \<open>connectionAttempts\<close> and \<open>blockedOperations\<close> exactly the entries whose
  key starts with \<open>userId\<close> and leaves every other entry unchanged.  In particular the
  entries of a subject whose id has \<open>userId\<close> as a prefix are deleted, and the entries of a
  subject whose id neither starts with \<open>userId\<close> nor is a prefix of \<open>userId\<close> are untouched.
\<close>

theorem clearUserAttempts_prefix:
  "retryAttempts (clearUserAttempts h userId) key =
     (if startsWith key userId then None else retryAttempts h key)
   \<and> lastRequestTime (clearUserAttempts h userId) key =
     (if startsWith key userId then None else lastRequestTime h key)
   \<and> connectionAttempts (clearUserAttempts h userId) key =
     (if startsWith key userId then None else connectionAttempts h key)
   \<and> (key \<in> blockedOperations (clearUserAttempts h userId) \<longleftrightarrow>
        key \<in> blockedOperations h \<and> \<not> startsWith key userId)
   \<and> (startsWith other userId \<longrightarrow>
        startsWith (opKey other operation) userId \<and> startsWith (wsKey other operation) userId)
   \<and> (\<not> startsWith other userId \<and> \<not> startsWith userId other \<longrightarrow>
        \<not> startsWith (opKey other operation) userId \<and> \<not> startsWith (wsKey other operation) userId)"
  by (auto simp: clearUserAttempts_def Let_def deleteKeys_def opKey_def wsKey_def
      startsWith_append startsWith_append_unrelated)

theorem clearUserAttempts_prefix_witness:
  "startsWith ''u1'' ''u1'' \<and> \<not> startsWith ''u2'' ''u1'' \<and> \<not> startsWith ''u1'' ''u2''
   \<and> retryAttempts (clearUserAttempts
         (newRateLimitHandler\<lparr>retryAttempts := [opKey ''u1'' ''send-message'' \<mapsto> 2, opKey ''u2'' ''send-message'' \<mapsto> 1]\<rparr>)
         ''u1'') (opKey ''u1'' ''send-message'') = None
   \<and> retryAttempts (clearUserAttempts
         (newRateLimitHandler\<lparr>retryAttempts := [opKey ''u1'' ''send-message'' \<mapsto> 2, opKey ''u2'' ''send-message'' \<mapsto> 1]\<rparr>)
         ''u1'') (opKey ''u2'' ''send-message'') = Some 1"
proof -
  let ?h = "newRateLimitHandler\<lparr>retryAttempts := [opKey ''u1'' ''send-message'' \<mapsto> 2, opKey ''u2'' ''send-message'' \<mapsto> 1]\<rparr>"
  have a: "startsWith ''u1'' ''u1''" "\<not> startsWith ''u2'' ''u1''" "\<not> startsWith ''u1'' ''u2''"
    by simp_all
  have k: "opKey ''u1'' ''send-message'' \<noteq> opKey ''u2'' ''send-message''"
    by (simp add: opKey_def)
  show ?thesis
    using clearUserAttempts_prefix [of ?h "''u1''" "opKey ''u1'' ''send-message''" "''u1''" "''send-message''"]
          clearUserAttempts_prefix [of ?h "''u1''" "opKey ''u2'' ''send-message''" "''u2''" "''send-message''"]
          a k
    by simp
qed

section \<open>Classification of concrete errors\<close>

lemma usesWebSocketGate_examples [simp]:
  "\<not> usesWebSocketGate ''send-message''"
  "\<not> usesWebSocketGate ''channel-create''"
  "usesWebSocketGate ''video-call''"
  by (simp_all add: usesWebSocketGate_def)

lemma boom_unclassified: "\<not> retryable (newError ''boom'')"
  unfolding retryable_def by code_simp

lemma http429_unclassified: "\<not> retryable (newError ''HTTP 429'')"
  unfolding retryable_def by code_simp

lemma status429_classified:
  "isRateLimitError (newError ''Request failed with status code 429'')"
  "\<not> isWebSocketError (newError ''Request failed with status code 429'')"
  by code_simp+

lemma rate_limit_classified: "retryable (newError ''rate limit'')"
  unfolding retryable_def by code_simp

lemma retryable_terminalError: "retryable (terminalError error)"
proof -
  have "isWebSocketError (newError ''Video connection failed. Please refresh the page and try again.'')"
    by code_simp
  moreover have "isRateLimitError
      (newError ''Rate limit exceeded. Please wait 5 minutes before trying again.'')"
    by code_simp
  ultimately show ?thesis by (simp add: retryable_def terminalError_def)
qed

lemma wsLimitError_not_terminal: "wsLimitError \<noteq> terminalError error"
  by (simp add: wsLimitError_def terminalError_def newError_def)

section \<open>Errors that are not retried\<close>

text \<open>
  Claim C5, as stated, fails: for the sixth \<open>video-call\<close> of a subject within the window the
  WebSocket gate rejects the call first, so an operation that would throw the unclassified
  error \<open>boom\<close> is not invoked at all and the call fails with the gate's error.
\<close>

theorem executeWithRetry_gate_first_counterexample:
  "\<not> isRateLimitError (newError ''boom'') \<and> \<not> isWebSocketError (newError ''boom'')
   \<and> fst (executeWithRetry (alwaysRejects (newError ''boom'') :: nat operation) noJitter
             ''u1'' ''video-call'' 3 wsExhausted) = Inl wsLimitError
   \<and> wsLimitError \<noteq> newError ''boom''
   \<and> calls (snd (executeWithRetry (alwaysRejects (newError ''boom'') :: nat operation) noJitter
             ''u1'' ''video-call'' 3 wsExhausted)) = 0"
proof -
  have gate: "checkWebSocket ''u1'' ''video-call'' wsExhausted = (True, wsExhausted)"
    by (simp add: checkWebSocket_def shouldRateLimitWebSocket_def wsExhausted_def newWorld_def Let_def)
  then have "fst (checkWebSocket ''u1'' ''video-call'' wsExhausted)" by simp
  from executeWithRetry_ws_blocked [OF this] gate
  have run: "executeWithRetry (alwaysRejects (newError ''boom'') :: nat operation) noJitter
             ''u1'' ''video-call'' 3 wsExhausted = (Inl wsLimitError, wsExhausted)"
    by simp
  have "calls wsExhausted = 0" by (simp add: wsExhausted_def newWorld_def)
  moreover have "wsLimitError \<noteq> newError ''boom''" by (simp add: wsLimitError_def newError_def)
  ultimately show ?thesis
    using boom_unclassified run by (simp add: retryable_def)
qed

text \<open>
  Claim C5, amended: when the WebSocket gate does not reject the call (it is consulted only
  for operation types containing \<open>video\<close> or \<open>connect\<close>) and the operation throws an error
  matching neither indicator list, \<open>executeWithRetry\<close> invokes the operation exactly once and
  rejects with that same error, without any retry.
\<close>

theorem executeWithRetry_unclassified_error:
  assumes "\<not> fst (checkWebSocket userId operationType w)"
    and "snd (operation (calls w)) = Rejected error"
    and "\<not> isRateLimitError error" and "\<not> isWebSocketError error"
  shows "executeWithRetry operation engine userId operationType maxRetries w =
           (Inl error, afterAttempt operation engine userId operationType w)
       \<and> calls (afterAttempt operation engine userId operationType w) = calls w + 1
       \<and> retries (afterAttempt operation engine userId operationType w) = retries w"
  using executeWithRetry_hard_failure [where operation = operation and w = w, OF assms(1) assms(2)]
    assms(3,4)
  by (simp add: retryable_def)

theorem executeWithRetry_unclassified_error_witness:
  "\<not> fst (checkWebSocket ''u1'' ''send-message'' (newWorld 1000))
   \<and> snd ((alwaysRejects (newError ''boom'') :: nat operation) (calls (newWorld 1000)))
       = Rejected (newError ''boom'')
   \<and> \<not> isRateLimitError (newError ''boom'') \<and> \<not> isWebSocketError (newError ''boom'')
   \<and> fst (executeWithRetry (alwaysRejects (newError ''boom'') :: nat operation) noJitter
             ''u1'' ''send-message'' 3 (newWorld 1000)) = Inl (newError ''boom'')
   \<and> calls (snd (executeWithRetry (alwaysRejects (newError ''boom'') :: nat operation) noJitter
             ''u1'' ''send-message'' 3 (newWorld 1000))) = 1"
proof -
  have 1: "\<not> fst (checkWebSocket ''u1'' ''send-message'' (newWorld 1000))" by simp
  have 2: "snd ((alwaysRejects (newError ''boom'') :: nat operation) (calls (newWorld 1000)))
       = Rejected (newError ''boom'')"
    by (simp add: alwaysRejects_def)
  have 3: "\<not> isRateLimitError (newError ''boom'')" "\<not> isWebSocketError (newError ''boom'')"
    using boom_unclassified by (simp_all add: retryable_def)
  have 4: "calls (newWorld 1000) = 0" by (simp add: newWorld_def)
  show ?thesis
    using executeWithRetry_unclassified_error
            [where operation = "alwaysRejects (newError ''boom'') :: nat operation"
               and w = "newWorld 1000" and engine = noJitter and maxRetries = 3, OF 1 2 3]
          1 2 3 4
    by simp
qed

section \<open>Exhausting the retries\<close>

text \<open>
  Claim C2, as stated, fails: the text \<open>HTTP 429\<close> contains \<open>429\<close> but none of the rate-limit
  indicators (which are \<open>status code 429\<close> and \<open>statuscode":429\<close> for this code) and no
  connection indicator, so the error is thrown on at once after a single invocation.
\<close>

theorem executeWithRetry_429_counterexample:
  "str_includes (asString (newError ''HTTP 429'')) ''429''
   \<and> retryAttempts (newWorld 1000) (opKey ''u1'' ''send-message'') = None
   \<and> fst (executeWithRetry (alwaysRejects (newError ''HTTP 429'') :: nat operation) noJitter
             ''u1'' ''send-message'' 2 (newWorld 1000)) = Inl (newError ''HTTP 429'')
   \<and> calls (snd (executeWithRetry (alwaysRejects (newError ''HTTP 429'') :: nat operation) noJitter
             ''u1'' ''send-message'' 2 (newWorld 1000))) = 1"
proof -
  have 0: "str_includes (asString (newError ''HTTP 429'')) ''429''"
    by (simp add: newError_def)
  have 1: "\<not> fst (checkWebSocket ''u1'' ''send-message'' (newWorld 1000))" by simp
  have 2: "snd ((alwaysRejects (newError ''HTTP 429'') :: nat operation) (calls (newWorld 1000)))
       = Rejected (newError ''HTTP 429'')"
    by (simp add: alwaysRejects_def)
  have 4: "calls (newWorld 1000) = 0" "retryAttempts (newWorld 1000) (opKey ''u1'' ''send-message'') = None"
    by (simp_all add: newWorld_def)
  show ?thesis
    using executeWithRetry_hard_failure
            [where operation = "alwaysRejects (newError ''HTTP 429'') :: nat operation"
               and w = "newWorld 1000" and engine = noJitter and maxRetries = 2,
             OF 1 2 http429_unclassified]
          0 4
    by simp
qed

text \<open>
  Claim C2, amended: for an operation that always throws an error matching a rate-limit
  indicator and no connection indicator, a key with no stored retry count, and a WebSocket
  gate with room for three attempts (not consulted for the type, or at most two attempts
  recorded), \<open>executeWithRetry\<close> with \<open>maxRetries = 2\<close> invokes the operation exactly three
  times, retries twice, and fails with the terminal rate-limit error.
\<close>

theorem executeWithRetry_rate_limit_exhausts:
  assumes "retryAttempts w (opKey userId operationType) = None"
    and "wsRoom w userId operationType 3"
    and "\<forall>n. \<exists>e. snd (operation n) = Rejected e \<and> isRateLimitError e \<and> \<not> isWebSocketError e"
  shows "fst (executeWithRetry operation engine userId operationType 2 w) =
           Inl (newError ''Rate limit exceeded. Please wait 5 minutes before trying again.'')
       \<and> calls (snd (executeWithRetry operation engine userId operationType 2 w)) = calls w + 3
       \<and> retries (snd (executeWithRetry operation engine userId operationType 2 w)) = retries w + 2"
proof -
  have stored: "storedAttempt w (opKey userId operationType) = 0"
    using assms(1) by (simp add: storedAttempt_def)
  have le: "storedAttempt w (opKey userId operationType) \<le> 2" using stored by simp
  have room: "wsRoom w userId operationType (Suc (2 - storedAttempt w (opKey userId operationType)))"
    using assms(2) stored by (simp add: numeral_3_eq_3)
  have fails: "\<forall>i \<le> 2 - storedAttempt w (opKey userId operationType).
           \<exists>e. snd (operation (calls w + i)) = Rejected e \<and> retryable e"
    using assms(3) by (metis retryable_def)
  from executeWithRetry_exhausts [OF le room fails, of engine]
  obtain e where e: "snd (operation (calls w + 2)) = Rejected e"
    and res: "fst (executeWithRetry operation engine userId operationType 2 w) = Inl (terminalError e)"
             "calls (snd (executeWithRetry operation engine userId operationType 2 w)) = calls w + 3"
             "retries (snd (executeWithRetry operation engine userId operationType 2 w)) = retries w + 2"
    using stored by auto
  from assms(3) e have "\<not> isWebSocketError e" by (metis outcome.inject(2))
  then show ?thesis using res by (simp add: terminalError_def)
qed

theorem executeWithRetry_rate_limit_exhausts_witness:
  "retryAttempts (newWorld 1000) (opKey ''u1'' ''channel-create'') = None
   \<and> wsRoom (newWorld 1000) ''u1'' ''channel-create'' 3
   \<and> isRateLimitError (newError ''Request failed with status code 429'')
   \<and> \<not> isWebSocketError (newError ''Request failed with status code 429'')
   \<and> fst (executeWithRetry
            (alwaysRejects (newError ''Request failed with status code 429'') :: nat operation)
            noJitter ''u1'' ''channel-create'' 2 (newWorld 1000)) =
        Inl (newError ''Rate limit exceeded. Please wait 5 minutes before trying again.'')
   \<and> calls (snd (executeWithRetry
            (alwaysRejects (newError ''Request failed with status code 429'') :: nat operation)
            noJitter ''u1'' ''channel-create'' 2 (newWorld 1000))) = 3"
proof -
  have 1: "retryAttempts (newWorld 1000) (opKey ''u1'' ''channel-create'') = None"
    by (simp add: newWorld_def)
  have 2: "wsRoom (newWorld 1000) ''u1'' ''channel-create'' 3"
    by (simp add: wsRoom_def)
  have 3: "\<forall>n. \<exists>e. snd ((alwaysRejects (newError ''Request failed with status code 429'')
                          :: nat operation) n) = Rejected e
                 \<and> isRateLimitError e \<and> \<not> isWebSocketError e"
    using status429_classified by (simp add: alwaysRejects_def)
  have 4: "calls (newWorld 1000) = 0" by (simp add: newWorld_def)
  show ?thesis
    using executeWithRetry_rate_limit_exhausts [OF 1 2 3, of noJitter] 1 2 4 status429_classified
    by simp
qed

section \<open>Blocked keys\<close>

text \<open>
  The timer registered with a block removes the key once the clock has reached its deadline.
\<close>

lemma advance_unblocks:
  assumes "(deadline, key) \<in> set (timers w)" and "deadline \<le> clock w + d"
  shows "key \<notin> blockedOperations (advance w d)"
proof -
  from assms have "(deadline, key) \<in> set (filter (\<lambda>(dl, k). dl \<le> clock w + d) (timers w))"
    by simp
  then have "key \<in> snd ` set (filter (\<lambda>(dl, k). dl \<le> clock w + d) (timers w))"
    by force
  then show ?thesis by (simp add: advance_def Let_def)
qed

lemma shouldRateLimit_blocked:
  "opKey userId operation \<in> blockedOperations h \<Longrightarrow> shouldRateLimit h now userId operation = (True, h)"
  by (simp add: shouldRateLimit_def Let_def)

lemma throttle_blocked:
  "opKey userId operationType \<in> blockedOperations w \<Longrightarrow>
   throttle engine userId operationType attempt w =
     sleep (rounded engine) (w\<lparr>draws := Suc (draws w)\<rparr>)
       (calculateBackoffDelay (rounded engine) attempt (mathRandom engine (draws w)))"
  by (simp add: throttle_def shouldRateLimit_blocked)

lemma executeWithRetry_invokes:
  assumes "\<not> fst (checkWebSocket userId operationType w)"
  shows "calls w < calls (snd (executeWithRetry operation engine userId operationType maxRetries w))"
proof (cases "snd (operation (calls w))")
  case (Resolved v)
  from executeWithRetry_resolved [where operation = operation and w = w, OF assms Resolved]
  show ?thesis by simp
next
  case (Rejected e)
  show ?thesis
  proof (cases "retryable e")
    case False
    from executeWithRetry_hard_failure [where operation = operation and w = w, OF assms Rejected False]
    show ?thesis by simp
  next
    case True
    show ?thesis
    proof (cases "storedAttempt w (opKey userId operationType) < maxRetries")
      case False
      from executeWithRetry_exhausted [where operation = operation and w = w, OF assms Rejected True False]
      show ?thesis by simp
    next
      case lt: True
      let ?w' = "retryWorld operation engine userId operationType e w"
      from executeWithRetry_bounded [of ?w' operation engine userId operationType maxRetries]
      have "calls ?w' \<le> calls (snd (executeWithRetry operation engine userId operationType maxRetries ?w'))"
        by simp
      then show ?thesis
        by (simp add: executeWithRetry_retry [where operation = operation and w = w, OF assms Rejected True lt])
    qed
  qed
qed

lemma rate_limit_not_connection:
  "isRateLimitError (newError ''rate limit'')"
  "\<not> isWebSocketError (newError ''rate limit'')"
  by code_simp+

lemmas run_defs = Let_def afterAttempt_def failsThenResolves_def newWorld_def storedAttempt_def
  throttle_def shouldRateLimit_def intervalFor_def invoke_def advance_def retryDelay_def sleep_def
  isSystemOverloaded_def calculateBackoffDelay_def noJitter_def retryable_def terminalError_def
  rate_limit_not_connection

lemma three_failures_run:
  "executeWithRetry (failsThenResolves 3 (newError ''rate limit'') (7::nat)) noJitter
     ''u1'' ''send-message'' 2 (newWorld 1000)
   = (Inl (newError ''Rate limit exceeded. Please wait 5 minutes before trying again.''),
      afterThreeFailures)"
  unfolding afterThreeFailures_def
  apply (subst executeWithRetry_unfold, simp add: run_defs)
  apply (subst executeWithRetry_unfold, simp add: run_defs)
  apply (subst executeWithRetry_unfold, simp add: run_defs)
  apply (simp add: numeral_2_eq_2)
  done

lemma blocked_key_run:
  "executeWithRetry (failsThenResolves 3 (newError ''rate limit'') (7::nat)) noJitter
     ''u1'' ''send-message'' 2 afterThreeFailures
   = (Inr 7,
      \<lparr>retryAttempts = Map.empty,
       lastRequestTime = [opKey ''u1'' ''send-message'' \<mapsto> 13000],
       connectionAttempts = Map.empty,
       blockedOperations = {},
       clock = 21000, timers = [(313000, opKey ''u1'' ''send-message'')],
       calls = 4, draws = 3, retries = 2\<rparr>)"
  unfolding afterThreeFailures_def
  by (subst executeWithRetry_unfold) (simp add: run_defs)

text \<open>
  Claim C1 on a run of the code: with \<open>maxRetries = 2\<close> three consecutive rate-limit
  failures, all three invoked, end the first call at time 13000 with the key in
  \<open>blockedOperations\<close> until 313000.  For the next call, made at once, the key is there and
  \<open>shouldRateLimit\<close> answers blocked, yet the call only sleeps the backoff delay of 8000,
  invokes the operation a fourth time at 21000 and returns its value: it does not fail
  without invoking the operation, as the claim and the code's own messages about the block
  say and as the WebSocket gate does.
\<close>

theorem executeWithRetry_blocked_key_run:
  "executeWithRetry (failsThenResolves 3 (newError ''rate limit'') (7::nat)) noJitter
     ''u1'' ''send-message'' 2 (newWorld 1000)
   = (Inl (newError ''Rate limit exceeded. Please wait 5 minutes before trying again.''),
      afterThreeFailures)
   \<and> opKey ''u1'' ''send-message'' \<in> blockedOperations afterThreeFailures
   \<and> timers afterThreeFailures = [(313000, opKey ''u1'' ''send-message'')]
   \<and> clock afterThreeFailures = 13000
   \<and> shouldRateLimit afterThreeFailures (clock afterThreeFailures) ''u1'' ''send-message''
       = (True, afterThreeFailures)
   \<and> executeWithRetry (failsThenResolves 3 (newError ''rate limit'') (7::nat)) noJitter
         ''u1'' ''send-message'' 2 afterThreeFailures
       = (Inr 7,
          \<lparr>retryAttempts = Map.empty,
           lastRequestTime = [opKey ''u1'' ''send-message'' \<mapsto> 13000],
           connectionAttempts = Map.empty,
           blockedOperations = {},
           clock = 21000, timers = [(313000, opKey ''u1'' ''send-message'')],
           calls = 4, draws = 3, retries = 2\<rparr>)"
proof -
  have blocked: "opKey ''u1'' ''send-message'' \<in> blockedOperations afterThreeFailures"
    by (simp add: afterThreeFailures_def)
  have "timers afterThreeFailures = [(313000, opKey ''u1'' ''send-message'')]"
    and "clock afterThreeFailures = 13000"
    by (simp_all add: afterThreeFailures_def)
  then show ?thesis
    using three_failures_run blocked_key_run blocked shouldRateLimit_blocked [OF blocked]
    by simp
qed

section \<open>The attempt count after the terminal error\<close>

lemma executeWithRetry_terminal_retains:
  assumes "fst (executeWithRetry operation engine userId operationType maxRetries w)
             = Inl (terminalError x)"
  shows "opKey userId operationType
           \<in> blockedOperations (snd (executeWithRetry operation engine userId operationType maxRetries w))
       \<and> storedAttempt (snd (executeWithRetry operation engine userId operationType maxRetries w))
           (opKey userId operationType)
         = max maxRetries (storedAttempt w (opKey userId operationType))"
  using assms
proof (induction "maxRetries - storedAttempt w (opKey userId operationType)" arbitrary: w)
  case 0
  let ?key = "opKey userId operationType"
  from 0 have ge: "\<not> storedAttempt w ?key < maxRetries" by simp
  show ?case
  proof (cases "fst (checkWebSocket userId operationType w)")
    case True
    from executeWithRetry_ws_blocked [OF True] "0.prems" wsLimitError_not_terminal
    show ?thesis by (metis Inl_inject fst_conv)
  next
    case gate: False
    show ?thesis
    proof (cases "snd (operation (calls w))")
      case (Resolved v)
      from executeWithRetry_resolved [where operation = operation and w = w, OF gate Resolved]
        "0.prems"
      show ?thesis by simp
    next
      case (Rejected e)
      show ?thesis
      proof (cases "retryable e")
        case False
        from executeWithRetry_hard_failure [where operation = operation and w = w, OF gate Rejected False]
          "0.prems" retryable_terminalError [of x]
        show ?thesis using False by simp
      next
        case True
        from executeWithRetry_exhausted [where operation = operation and w = w, OF gate Rejected True ge]
        show ?thesis using ge by simp
      qed
    qed
  qed
next
  case (Suc n)
  let ?key = "opKey userId operationType"
  from Suc.hyps(2) have lt: "storedAttempt w ?key < maxRetries" by simp
  show ?case
  proof (cases "fst (checkWebSocket userId operationType w)")
    case True
    from executeWithRetry_ws_blocked [OF True] Suc.prems wsLimitError_not_terminal
    show ?thesis by (metis Inl_inject fst_conv)
  next
    case gate: False
    show ?thesis
    proof (cases "snd (operation (calls w))")
      case (Resolved v)
      from executeWithRetry_resolved [where operation = operation and w = w, OF gate Resolved]
        Suc.prems
      show ?thesis by simp
    next
      case (Rejected e)
      show ?thesis
      proof (cases "retryable e")
        case False
        from executeWithRetry_hard_failure [where operation = operation and w = w, OF gate Rejected False]
          Suc.prems retryable_terminalError [of x]
        show ?thesis using False by simp
      next
        case True
        let ?w' = "retryWorld operation engine userId operationType e w"
        have eq: "executeWithRetry operation engine userId operationType maxRetries w =
                  executeWithRetry operation engine userId operationType maxRetries ?w'"
          using executeWithRetry_retry [where operation = operation and w = w, OF gate Rejected True lt] .
        have n: "n = maxRetries - storedAttempt ?w' ?key"
          using Suc.hyps(2) by simp
        from Suc.hyps(1) [OF n] Suc.prems
        show ?thesis unfolding eq using lt by simp
      qed
    qed
  qed
qed

text \<open>
  Claim C9, as stated, fails: a call with the default budget 3 leaves the count 3 stored;
  a call for the same key with \<open>maxRetries = 2\<close> then fails terminally and the count stays
  at 3, not at \<open>maxRetries\<close>.
\<close>

theorem executeWithRetry_terminal_count_counterexample:
  "fst (executeWithRetry (alwaysRejects (newError ''rate limit'') :: nat operation) noJitter
          ''u1'' ''send-message'' 2
          (snd (executeWithRetry (alwaysRejects (newError ''rate limit'') :: nat operation) noJitter
                  ''u1'' ''send-message'' 3 (newWorld 1000))))
     = Inl (terminalError (newError ''rate limit''))
   \<and> storedAttempt
        (snd (executeWithRetry (alwaysRejects (newError ''rate limit'') :: nat operation) noJitter
          ''u1'' ''send-message'' 2
          (snd (executeWithRetry (alwaysRejects (newError ''rate limit'') :: nat operation) noJitter
                  ''u1'' ''send-message'' 3 (newWorld 1000)))))
        (opKey ''u1'' ''send-message'') = 3"
proof -
  let ?op = "alwaysRejects (newError ''rate limit'') :: nat operation"
  let ?key = "opKey ''u1'' ''send-message''"
  let ?w1 = "snd (executeWithRetry ?op noJitter ''u1'' ''send-message'' 3 (newWorld 1000))"
  have stored: "storedAttempt (newWorld 1000) ?key = 0"
    by (simp add: storedAttempt_def newWorld_def)
  have le: "storedAttempt (newWorld 1000) ?key \<le> 3" using stored by simp
  have room: "wsRoom (newWorld 1000) ''u1'' ''send-message''
                (Suc (3 - storedAttempt (newWorld 1000) ?key))"
    by (simp add: wsRoom_def)
  have fails: "\<forall>i \<le> 3 - storedAttempt (newWorld 1000) ?key.
           \<exists>e. snd (?op (calls (newWorld 1000) + i)) = Rejected e \<and> retryable e"
    using rate_limit_classified by (simp add: alwaysRejects_def)
  from executeWithRetry_exhausts [OF le room fails, of noJitter]
  have stored1: "storedAttempt ?w1 ?key = 3" by blast
  have gate: "\<not> fst (checkWebSocket ''u1'' ''send-message'' ?w1)" by simp
  have rej: "snd (?op (calls ?w1)) = Rejected (newError ''rate limit'')"
    by (simp add: alwaysRejects_def)
  have ge: "\<not> storedAttempt ?w1 ?key < 2" using stored1 by simp
  from executeWithRetry_exhausted
         [where operation = ?op and w = ?w1 and engine = noJitter,
          OF gate rej rate_limit_classified ge]
  show ?thesis using stored1 by simp
qed

text \<open>
  Claim C9, amended: when \<open>executeWithRetry\<close> ends with the terminal error, the key is blocked
  and the stored attempt count is kept, not cleared: it is the larger of \<open>maxRetries\<close> and the
  count stored at entry (so \<open>maxRetries\<close> when that count did not exceed it).  A later call
  for the key with the same \<open>maxRetries\<close>, made while the count is still stored and let
  through by the WebSocket gate, whose operation fails with a retryable error, fails
  terminally after that one invocation, without any retry.
\<close>

theorem executeWithRetry_terminal_count_retained:
  assumes "fst (executeWithRetry operation engine userId operationType maxRetries w)
             = Inl (terminalError x)"
    and "endWorld = snd (executeWithRetry operation engine userId operationType maxRetries w)"
    and "storedAttempt laterWorld (opKey userId operationType) = storedAttempt endWorld (opKey userId operationType)"
    and "\<not> fst (checkWebSocket userId operationType laterWorld)"
    and "snd (laterOperation (calls laterWorld)) = Rejected e"
    and "isRateLimitError e \<or> isWebSocketError e"
  shows "opKey userId operationType \<in> blockedOperations endWorld
       \<and> storedAttempt endWorld (opKey userId operationType)
           = max maxRetries (storedAttempt w (opKey userId operationType))
       \<and> fst (executeWithRetry laterOperation laterEngine userId operationType maxRetries laterWorld)
           = Inl (terminalError e)
       \<and> calls (snd (executeWithRetry laterOperation laterEngine userId operationType maxRetries laterWorld))
           = calls laterWorld + 1
       \<and> retries (snd (executeWithRetry laterOperation laterEngine userId operationType maxRetries laterWorld))
           = retries laterWorld"
proof -
  note first = executeWithRetry_terminal_retains [OF assms(1), folded assms(2)]
  then have ge: "\<not> storedAttempt laterWorld (opKey userId operationType) < maxRetries"
    using assms(3) by simp
  have r: "retryable e" using assms(6) by (simp add: retryable_def)
  from executeWithRetry_exhausted
         [where operation = laterOperation and w = laterWorld and engine = laterEngine, OF assms(4,5) r ge]
  show ?thesis using first by simp
qed

theorem executeWithRetry_terminal_count_retained_witness:
  "fst (executeWithRetry (alwaysRejects (newError ''rate limit'') :: nat operation) noJitter
          ''u1'' ''send-message'' 2 (newWorld 1000))
     = Inl (terminalError (newError ''rate limit''))
   \<and> \<not> fst (checkWebSocket ''u1'' ''send-message''
          (snd (executeWithRetry (alwaysRejects (newError ''rate limit'') :: nat operation) noJitter
                  ''u1'' ''send-message'' 2 (newWorld 1000))))
   \<and> isRateLimitError (newError ''rate limit'')
   \<and> opKey ''u1'' ''send-message''
       \<in> blockedOperations
           (snd (executeWithRetry (alwaysRejects (newError ''rate limit'') :: nat operation) noJitter
                  ''u1'' ''send-message'' 2 (newWorld 1000)))
   \<and> storedAttempt
        (snd (executeWithRetry (alwaysRejects (newError ''rate limit'') :: nat operation) noJitter
                  ''u1'' ''send-message'' 2 (newWorld 1000)))
        (opKey ''u1'' ''send-message'') = 2
   \<and> fst (executeWithRetry (alwaysRejects (newError ''rate limit'') :: nat operation) noJitter
          ''u1'' ''send-message'' 2
          (snd (executeWithRetry (alwaysRejects (newError ''rate limit'') :: nat operation) noJitter
                  ''u1'' ''send-message'' 2 (newWorld 1000))))
     = Inl (terminalError (newError ''rate limit''))
   \<and> calls (snd (executeWithRetry (alwaysRejects (newError ''rate limit'') :: nat operation) noJitter
          ''u1'' ''send-message'' 2
          (snd (executeWithRetry (alwaysRejects (newError ''rate limit'') :: nat operation) noJitter
                  ''u1'' ''send-message'' 2 (newWorld 1000)))))
     = 4"
proof -
  let ?op = "alwaysRejects (newError ''rate limit'') :: nat operation"
  let ?key = "opKey ''u1'' ''send-message''"
  let ?w1 = "snd (executeWithRetry ?op noJitter ''u1'' ''send-message'' 2 (newWorld 1000))"
  have stored: "storedAttempt (newWorld 1000) ?key = 0" and calls0: "calls (newWorld 1000) = 0"
    by (simp_all add: storedAttempt_def newWorld_def)
  have le: "storedAttempt (newWorld 1000) ?key \<le> 2" using stored by simp
  have room: "wsRoom (newWorld 1000) ''u1'' ''send-message''
                (Suc (2 - storedAttempt (newWorld 1000) ?key))"
    by (simp add: wsRoom_def)
  have fails: "\<forall>i \<le> 2 - storedAttempt (newWorld 1000) ?key.
           \<exists>e. snd (?op (calls (newWorld 1000) + i)) = Rejected e \<and> retryable e"
    using rate_limit_classified by (simp add: alwaysRejects_def)
  from executeWithRetry_exhausts [OF le room fails, of noJitter]
  obtain e where e: "snd (?op (calls (newWorld 1000) + (2 - storedAttempt (newWorld 1000) ?key)))
                       = Rejected e"
    and t: "fst (executeWithRetry ?op noJitter ''u1'' ''send-message'' 2 (newWorld 1000))
             = Inl (terminalError e)"
    and c1: "calls ?w1 = calls (newWorld 1000) + (2 - storedAttempt (newWorld 1000) ?key) + 1"
    by blast
  from e have "e = newError ''rate limit''" by (simp add: alwaysRejects_def)
  with t have 1: "fst (executeWithRetry ?op noJitter ''u1'' ''send-message'' 2 (newWorld 1000))
             = Inl (terminalError (newError ''rate limit''))"
    by simp
  from c1 have calls1: "calls ?w1 = 3" by (simp add: stored calls0)
  have 2: "?w1 = snd (executeWithRetry ?op noJitter ''u1'' ''send-message'' 2 (newWorld 1000))"
    by simp
  have 3: "storedAttempt ?w1 ?key = storedAttempt ?w1 ?key" by simp
  have 4: "\<not> fst (checkWebSocket ''u1'' ''send-message'' ?w1)" by simp
  have 5: "snd (?op (calls ?w1)) = Rejected (newError ''rate limit'')"
    by (simp add: alwaysRejects_def)
  have c: "isRateLimitError (newError ''rate limit'')" by code_simp
  then have 6: "isRateLimitError (newError ''rate limit'') \<or> isWebSocketError (newError ''rate limit'')"
    by simp
  show ?thesis
    using executeWithRetry_terminal_count_retained
            [where laterOperation = ?op and laterWorld = ?w1 and laterEngine = noJitter, OF 1 2 3 4 5 6]
          1 4 c calls1 stored
    by simp
qed

section \<open>The channel cache\<close>

text \<open>
  Claim C8, as stated, fails: when the first creation attempt is rejected with a rate-limit
  error and the retry succeeds, the request returns the channel after two invocations of
  the channel-creation operation.
\<close>

theorem getOrCreateChannel_retried_counterexample:
  "fst (getOrCreateChannel (failsThenResolves 1 (newError ''rate limit'') (42::nat)) noJitter
          ''u1'' ''u1-u2'' (newChatPage 1000)) = Inr 42
   \<and> calls (snd (getOrCreateChannel (failsThenResolves 1 (newError ''rate limit'') (42::nat)) noJitter
          ''u1'' ''u1-u2'' (newChatPage 1000))) = 2"
proof -
  let ?op = "failsThenResolves 1 (newError ''rate limit'') (42::nat)"
  let ?p = "newChatPage 1000 :: nat chatPage"
  let ?p' = "retryWorld ?op noJitter ''u1'' ''channel-create'' (newError ''rate limit'') ?p"
  have gate: "\<not> fst (checkWebSocket ''u1'' ''channel-create'' ?p)" by simp
  have first: "snd (?op (calls ?p)) = Rejected (newError ''rate limit'')"
    by (simp add: failsThenResolves_def newChatPage_def)
  have lt: "storedAttempt ?p (opKey ''u1'' ''channel-create'') < 2"
    by (simp add: storedAttempt_def newChatPage_def)
  have gate': "\<not> fst (checkWebSocket ''u1'' ''channel-create'' ?p')" by simp
  have calls': "calls ?p' = 1" by (simp add: newChatPage_def)
  have second: "snd (?op (calls ?p')) = Resolved 42"
    unfolding calls' by (simp add: failsThenResolves_def)
  have run: "executeWithRetry ?op noJitter ''u1'' ''channel-create'' 2 ?p =
             executeWithRetry ?op noJitter ''u1'' ''channel-create'' 2 ?p'"
    using executeWithRetry_retry
            [where operation = ?op and w = ?p, OF gate first rate_limit_classified lt] .
  have cache: "channelCache ?p ''u1-u2'' = None" by (simp add: newChatPage_def)
  from executeWithRetry_resolved [where operation = ?op and w = ?p', OF gate' second, of noJitter 2]
  show ?thesis
    using cache calls' by (simp add: getOrCreateChannel_def run del: One_nat_def)
qed

text \<open>
  Claim C8, amended: when a request for a channel id has returned a channel, every
  following request for that id returns the very same channel from the cache, without
  invoking the creation operation and without changing the state.  The creation operation is
  invoked by the first request only: at most three times (one attempt and two retries), and
  exactly once when its first invocation resolves.
\<close>

theorem getOrCreateChannel_cached:
  assumes "getOrCreateChannel channelOperation engine authUserId channelId p = (Inr channel, p')"
  shows "getOrCreateChannel laterOperation laterEngine laterUserId channelId p' = (Inr channel, p')
       \<and> channelCache p' channelId = Some channel
       \<and> calls p \<le> calls p' \<and> calls p' \<le> calls p + 3
       \<and> (channelCache p channelId = None \<and> snd (channelOperation (calls p)) = Resolved v
            \<longrightarrow> channel = v \<and> calls p' = calls p + 1)"
proof (cases "channelCache p channelId")
  case (Some cached)
  with assms show ?thesis by (simp add: getOrCreateChannel_def)
next
  case None
  obtain r q where run: "executeWithRetry channelOperation engine authUserId ''channel-create'' 2 p = (r, q)"
    by (cases "executeWithRetry channelOperation engine authUserId ''channel-create'' 2 p")
  from assms None run have r: "r = Inr channel"
    and p': "p' = q\<lparr>channelCache := (channelCache q)(channelId \<mapsto> channel)\<rparr>"
    by (auto simp: getOrCreateChannel_def split: sum.splits)
  from executeWithRetry_bounded [of p channelOperation engine authUserId "''channel-create''" 2]
  have "calls p \<le> calls q
        \<and> calls q \<le> calls p + (2 - storedAttempt p (opKey authUserId ''channel-create'')) + 1"
    by (simp add: run)
  then have bounds: "calls p \<le> calls q" "calls q \<le> calls p + 3"
    by arith+
  have again: "getOrCreateChannel laterOperation laterEngine laterUserId channelId p' = (Inr channel, p')"
    by (simp add: getOrCreateChannel_def p')
  have direct: "channel = v \<and> calls p' = calls p + 1" if "snd (channelOperation (calls p)) = Resolved v"
  proof -
    have gate: "\<not> fst (checkWebSocket authUserId ''channel-create'' p)" by simp
    from executeWithRetry_resolved [where operation = channelOperation and w = p, OF gate that, of engine 2]
      run r
    show ?thesis by (auto simp: p')
  qed
  show ?thesis
    using again bounds direct by (simp add: p')
qed

theorem getOrCreateChannel_cached_witness:
  "fst (getOrCreateChannel (failsThenResolves 0 (newError ''rate limit'') (42::nat)) noJitter
          ''u1'' ''u1-u2'' (newChatPage 1000)) = Inr 42
   \<and> getOrCreateChannel (failsThenResolves 0 (newError ''rate limit'') (43::nat)) noJitter
          ''u1'' ''u1-u2''
          (snd (getOrCreateChannel (failsThenResolves 0 (newError ''rate limit'') (42::nat)) noJitter
                  ''u1'' ''u1-u2'' (newChatPage 1000)))
       = (Inr 42,
          snd (getOrCreateChannel (failsThenResolves 0 (newError ''rate limit'') (42::nat)) noJitter
                  ''u1'' ''u1-u2'' (newChatPage 1000)))
   \<and> calls (snd (getOrCreateChannel (failsThenResolves 0 (newError ''rate limit'') (42::nat)) noJitter
                  ''u1'' ''u1-u2'' (newChatPage 1000))) = 1"
proof -
  let ?op = "failsThenResolves 0 (newError ''rate limit'') (42::nat)"
  let ?p = "newChatPage 1000 :: nat chatPage"
  have gate: "\<not> fst (checkWebSocket ''u1'' ''channel-create'' ?p)" by simp
  have first: "snd (?op (calls ?p)) = Resolved 42"
    by (simp add: failsThenResolves_def)
  have cache: "channelCache ?p ''u1-u2'' = None" and calls0: "calls ?p = 0"
    by (simp_all add: newChatPage_def)
  from executeWithRetry_resolved [where operation = ?op and w = ?p, OF gate first, of noJitter 2]
  have 1: "fst (getOrCreateChannel ?op noJitter ''u1'' ''u1-u2'' ?p) = Inr 42"
    using cache by (simp add: getOrCreateChannel_def)
  then have 2: "getOrCreateChannel ?op noJitter ''u1'' ''u1-u2'' ?p =
                  (Inr 42, snd (getOrCreateChannel ?op noJitter ''u1'' ''u1-u2'' ?p))"
    by (metis prod.collapse)
  show ?thesis
    using getOrCreateChannel_cached
            [OF 2, of "failsThenResolves 0 (newError ''rate limit'') (43::nat)" noJitter "''u1''" 42]
          1 cache first calls0
    by simp
qed

section \<open>The retry budget\<close>

declare executeWithRetryAmong.simps [simp del]

text \<open>The body with the results of its steps named, as for the call that runs alone.\<close>

lemma executeWithRetryAmong_unfold:
  "executeWithRetryAmong others (Suc fuel) operation engine userId operationType maxRetries w =
     (let key = opKey userId operationType;
          attempt = storedAttempt w key;
          w2 = afterAttempt operation engine userId operationType w
      in if fst (checkWebSocket userId operationType w)
         then Some (Inl wsLimitError, snd (checkWebSocket userId operationType w))
         else (case snd (operation (calls w)) of
                 Resolved result \<Rightarrow>
                   Some (Inr result,
                         w2\<lparr>retryAttempts := (retryAttempts w2)(key := None),
                            blockedOperations := blockedOperations w2 - {key}\<rparr>)
               | Rejected error \<Rightarrow>
                   if retryable error then
                     if attempt < maxRetries then
                       executeWithRetryAmong others fuel operation engine userId operationType maxRetries
                         (interfere (others (retries w))
                            (retryWorld operation engine userId operationType error w))
                     else
                       Some (Inl (terminalError error),
                             w2\<lparr>blockedOperations := insert key (blockedOperations w2),
                                timers := timers w2 @ [(clock w2 + 300000, key)]\<rparr>)
                   else Some (Inl error, w2)))"
proof (cases "checkWebSocket userId operationType w")
  case (Pair b w1)
  show ?thesis
  proof (cases "invoke operation (throttle engine userId operationType
                   (storedAttempt w (opKey userId operationType)) w1)")
    case inv: (Pair r w2)
    have r: "r = snd (operation (calls w))"
      using inv Pair invoke_fields(1) [of operation "throttle engine userId operationType
                   (storedAttempt w (opKey userId operationType)) w1"]
            checkWebSocket_fields(3) [of userId operationType w]
      by simp
    have w2: "afterAttempt operation engine userId operationType w = w2"
      using inv Pair by (simp add: afterAttempt_def)
    have rt: "retries w2 = retries w"
      using afterAttempt_fields(4) [of operation engine userId operationType w] w2 by simp
    show ?thesis
      using Pair inv r w2 rt
      by (subst executeWithRetryAmong.simps)
         (auto simp: Let_def wsLimitError_def terminalError_def retryable_def retryWorld_def
               split: outcome.splits)
  qed
qed

text \<open>
  When the other tasks do nothing, the call with enough fuel is the call that runs alone.
\<close>

lemma executeWithRetryAmong_idle:
  assumes "\<forall>n. others n = Idle"
    and "maxRetries - storedAttempt w (opKey userId operationType) < fuel"
  shows "executeWithRetryAmong others fuel operation engine userId operationType maxRetries w =
           Some (executeWithRetry operation engine userId operationType maxRetries w)"
  using assms(2)
proof (induction fuel arbitrary: w)
  case 0
  then show ?case by simp
next
  case (Suc fuel)
  let ?key = "opKey userId operationType"
  show ?case
  proof (cases "fst (checkWebSocket userId operationType w)")
    case True
    then show ?thesis
      by (simp add: executeWithRetryAmong_unfold executeWithRetry_ws_blocked Let_def)
  next
    case gate: False
    show ?thesis
    proof (cases "snd (operation (calls w))")
      case (Resolved v)
      with gate show ?thesis
        by (simp add: executeWithRetryAmong_unfold Let_def
              executeWithRetry_resolved [where operation = operation and w = w, OF gate Resolved])
    next
      case (Rejected e)
      show ?thesis
      proof (cases "retryable e")
        case False
        with gate Rejected show ?thesis
          by (simp add: executeWithRetryAmong_unfold Let_def
                executeWithRetry_hard_failure [where operation = operation and w = w, OF gate Rejected False])
      next
        case True
        show ?thesis
        proof (cases "storedAttempt w ?key < maxRetries")
          case False
          with gate Rejected True show ?thesis
            by (simp add: executeWithRetryAmong_unfold Let_def
                  executeWithRetry_exhausted [where operation = operation and w = w, OF gate Rejected True False])
        next
          case lt: True
          let ?w' = "retryWorld operation engine userId operationType e w"
          have "maxRetries - storedAttempt ?w' ?key < fuel"
            using Suc.prems lt by simp
          from Suc.IH [OF this] gate Rejected True lt assms(1)
          show ?thesis
            by (simp add: executeWithRetryAmong_unfold Let_def
                  executeWithRetry_retry [where operation = operation and w = w, OF gate Rejected True lt])
        qed
      qed
    qed
  qed
qed

lemma clearUserAttempts_retryAttempts:
  "retryAttempts (clearUserAttempts h userId) key =
     (if startsWith key userId then None else retryAttempts h key)"
  by (auto simp: clearUserAttempts_def Let_def deleteKeys_def)

lemma clearUserAttempts_world_fields [simp]:
  "calls (clearUserAttempts w userId) = calls w"
  "retries (clearUserAttempts w userId) = retries w"
  by (simp_all add: clearUserAttempts_def Let_def)

lemma storedAttempt_cleared [simp]:
  "storedAttempt (clearUserAttempts w userId) (opKey userId operationType) = 0"
proof -
  have "startsWith userId userId" by (simp add: startsWith_iff)
  then have "startsWith (opKey userId operationType) userId"
    unfolding opKey_def by (rule startsWith_append)
  then show ?thesis
    by (simp add: storedAttempt_def clearUserAttempts_retryAttempts)
qed


text \<open>And a call whose operation always fails never settles, whatever the fuel.\<close>

lemma snd_alwaysRejects: "snd (alwaysRejects error n) = Rejected error"
  by (simp add: alwaysRejects_def)

lemma executeWithRetryAmong_never_settles:
  assumes "\<not> usesWebSocketGate operationType" and "\<forall>n. others n = Clears userId"
    and "0 < maxRetries" and "retryable error"
    and "storedAttempt w (opKey userId operationType) = 0"
  shows "executeWithRetryAmong others fuel (alwaysRejects error :: 'a operation) engine
           userId operationType maxRetries w = None"
  using assms(5)
proof (induction fuel arbitrary: w)
  case 0
  show ?case by (simp add: executeWithRetryAmong.simps)
next
  case (Suc fuel)
  let ?w' = "interfere (others (retries w))
               (retryWorld (alwaysRejects error :: 'a operation) engine userId operationType error w)"
  have "?w' = clearUserAttempts
                (retryWorld (alwaysRejects error :: 'a operation) engine userId operationType error w)
                userId"
    using assms(2) by simp
  then have "storedAttempt ?w' (opKey userId operationType) = 0" by simp
  from Suc.IH [OF this] show ?case
    using assms(1,3,4) Suc.prems
    by (simp add: executeWithRetryAmong_unfold Let_def snd_alwaysRejects)
qed



lemma interfere_world_fields [simp]:
  "calls (interfere x w) = calls w"
  "retries (interfere x w) = retries w"
  by (cases x; simp)+




end
